theory Spec2Isabelle
  imports Complex_Main "HOL-Library.Multiset"
begin

section \<open>JavaScript numbers and helpers\<close>

text \<open>
  The prediction and generation endpoints compute on JavaScript \<open>number\<close>s. A finite
  number is modelled as a \<^typ>\<open>real\<close> with exact arithmetic: the rounding of the binary
  representation and its overflow are not modelled. The estimators are given twice. The
  functions over \<^typ>\<open>real\<close> of the first sections say what the code computes from
  finite numbers. The functions with the suffix \<open>_js\<close>, in the section on all numbers,
  transcribe the same code over the type \<open>number\<close>, which adds the infinities and
  \<open>NaN\<close>; the two are proved to agree on finite numbers.
\<close>

text \<open>\<open>Math.round(x)\<close> of a finite number: the nearest integer, a tie going up.\<close>

definition Math_round :: "real \<Rightarrow> real" where
  "Math_round x = of_int \<lfloor>x + 1 / 2\<rfloor>"

text \<open>\<open>Math.round(x * 100) / 100\<close>, the rounding of the simple endpoints.\<close>

definition round2 :: "real \<Rightarrow> real" where
  "round2 x = Math_round (x * 100) / 100"

text \<open>
  \<open>parseFloat(x.toFixed(2))\<close>, the rounding of the enhanced endpoints: \<open>toFixed\<close> takes
  the sign off, rounds the magnitude to the nearest multiple of \<open>1/100\<close> (the larger one
  at a tie), and prints numbers from \<open>10\<^sup>2\<^sup>1\<close> on unrounded.
\<close>

definition toFixed2 :: "real \<Rightarrow> real" where
  "toFixed2 x =
     (if 10 ^ 21 \<le> \<bar>x\<bar> then x
      else if x < 0 then - (of_int \<lfloor>(- x) * 100 + 1 / 2\<rfloor> / 100)
      else of_int \<lfloor>x * 100 + 1 / 2\<rfloor> / 100)"

section \<open>Linear estimator\<close>

text \<open>
  The local \<open>yield_value\<close> of \<open>predictLinearRegression\<close> in the simple prediction
  endpoint: intercept 1000 and the five hard-coded coefficients.
\<close>

definition yield_value :: "real \<Rightarrow> real \<Rightarrow> real \<Rightarrow> real \<Rightarrow> real \<Rightarrow> real" where
  "yield_value temp rain fert ph humid =
     1000 + 50 * temp + 2.5 * rain + 15 * fert + 200 * ph + 10 * humid"

definition predictLinearRegression :: "real \<Rightarrow> real \<Rightarrow> real \<Rightarrow> real \<Rightarrow> real \<Rightarrow> real" where
  "predictLinearRegression temp rain fert ph humid =
     max 500 (round2 (yield_value temp rain fert ph humid))"

text \<open>
  The function of the same name in the enhanced prediction endpoint: twelve arguments,
  intercept 800, its own coefficients, and \<open>toFixed\<close> for the rounding.
\<close>

definition yield_value_enhanced ::
  "real \<Rightarrow> real \<Rightarrow> real \<Rightarrow> real \<Rightarrow> real \<Rightarrow> real \<Rightarrow> real \<Rightarrow> real \<Rightarrow> real \<Rightarrow> real \<Rightarrow> real \<Rightarrow> real \<Rightarrow> real"
where
  "yield_value_enhanced temp rain fert ph humid n p k tr_int pf_int t_sq npk_r =
     800 + 45 * temp + 2.2 * rain + 14 * fert + 180 * ph + 9 * humid
       + 2 * n + 1 * p + 1.5 * k + 5 * tr_int + 3 * pf_int
       + (- 0.5) * t_sq + 10 * npk_r"

definition predictLinearRegression_enhanced ::
  "real \<Rightarrow> real \<Rightarrow> real \<Rightarrow> real \<Rightarrow> real \<Rightarrow> real \<Rightarrow> real \<Rightarrow> real \<Rightarrow> real \<Rightarrow> real \<Rightarrow> real \<Rightarrow> real \<Rightarrow> real"
where
  "predictLinearRegression_enhanced temp rain fert ph humid n p k tr_int pf_int t_sq npk_r =
     max 500 (toFixed2 (yield_value_enhanced temp rain fert ph humid n p k tr_int pf_int t_sq npk_r))"

section \<open>Rule-based crop selector\<close>

text \<open>
  \<open>determineBestCrop\<close> is the same in both prediction endpoints: six guarded returns
  in this order, then the default. Fertilizer, pH and humidity are accepted and unused.
\<close>

definition determineBestCrop :: "real \<Rightarrow> real \<Rightarrow> real \<Rightarrow> real \<Rightarrow> real \<Rightarrow> string" where
  "determineBestCrop temp rain fert ph humid =
     (if temp > 30 \<and> rain > 1200 then ''Rice''
      else if temp > 25 \<and> rain > 800 \<and> rain < 1200 then ''Corn''
      else if temp > 28 \<and> rain > 1000 then ''Sugarcane''
      else if temp < 25 \<and> rain < 800 then ''Wheat''
      else if temp > 25 \<and> rain < 700 then ''Cotton''
      else if temp < 28 \<and> rain > 600 \<and> rain < 1000 then ''Soybean''
      else ''Barley'')"

text \<open>
  The decision table as the specification words it: the rules as a list of guard and
  label, read from the top, the first rule whose guard holds giving the label.
\<close>

definition crop_rules :: "((real \<Rightarrow> real \<Rightarrow> bool) \<times> string) list" where
  "crop_rules =
     [(\<lambda>temp rain. temp > 30 \<and> rain > 1200, ''Rice''),
      (\<lambda>temp rain. temp > 25 \<and> rain > 800 \<and> rain < 1200, ''Corn''),
      (\<lambda>temp rain. temp > 28 \<and> rain > 1000, ''Sugarcane''),
      (\<lambda>temp rain. temp < 25 \<and> rain < 800, ''Wheat''),
      (\<lambda>temp rain. temp > 25 \<and> rain < 700, ''Cotton''),
      (\<lambda>temp rain. temp < 28 \<and> rain > 600 \<and> rain < 1000, ''Soybean'')]"

fun first_match :: "((real \<Rightarrow> real \<Rightarrow> bool) \<times> string) list \<Rightarrow> real \<Rightarrow> real \<Rightarrow> string" where
  "first_match [] temp rain = ''Barley''"
| "first_match ((guard, label) # rules) temp rain =
     (if guard temp rain then label else first_match rules temp rain)"

section \<open>Dataset rows\<close>

text \<open>
  The five base features are what the simple prediction endpoint reads from the request.
  The enhanced endpoint also reads the three NPK levels, which the form may leave
  empty. A row of \<open>crops_dataset\<close> has the base features, \<open>crop\<close> and \<open>yield\<close>
  as \<open>NOT NULL\<close> columns; the NPK and the engineered columns were added later without
  that constraint, so \<open>None\<close> stands for an SQL \<open>NULL\<close>, read as \<open>null\<close>.
\<close>

record features =
  temperature :: real
  rainfall :: real
  fertilizer :: real
  soil_ph :: real
  humidity :: real

record npk_features = features +
  nitrogen :: "real option"
  phosphorus :: "real option"
  potassium :: "real option"

record crops_row = npk_features +
  temp_rainfall_interaction :: "real option"
  ph_fertilizer_interaction :: "real option"
  temp_squared :: "real option"
  npk_ratio :: "real option"
  crop :: string
  yield :: real

text \<open>A nullable number as a condition: \<open>null\<close> and \<open>0\<close> are falsy.\<close>

definition truthy :: "real option \<Rightarrow> bool" where
  "truthy v = (case v of None \<Rightarrow> False | Some x \<Rightarrow> x \<noteq> 0)"

text \<open>A nullable number in arithmetic: \<open>null\<close> converts to \<open>0\<close>.\<close>

definition ToNumber :: "real option \<Rightarrow> real" where
  "ToNumber v = (case v of None \<Rightarrow> 0 | Some x \<Rightarrow> x)"

section \<open>Nearest-neighbour estimator\<close>

text \<open>The objects \<open>{ distance, yield }\<close> that the \<open>map\<close> over the training data builds.\<close>

record neighbour =
  n_distance :: real
  n_yield :: real

text \<open>The term \<open>1 / (n.distance + 0.01)\<close> of both \<open>reduce\<close> callbacks.\<close>

definition weight :: "neighbour \<Rightarrow> real" where
  "weight n = 1 / (n_distance n + 0.01)"

definition totalWeight :: "neighbour list \<Rightarrow> real" where
  "totalWeight nearest = foldl (\<lambda>sum n. sum + weight n) 0 nearest"

definition weightedYield :: "neighbour list \<Rightarrow> real" where
  "weightedYield nearest =
     foldl (\<lambda>sum n. sum + (n_yield n * weight n) / totalWeight nearest) 0 nearest"

text \<open>
  \<open>distances.sort((a, b) => a.distance - b.distance)\<close> followed by
  \<open>distances.slice(0, k)\<close> with \<open>k = Math.min(10, trainingData.length)\<close>. The sort of
  the runtime is stable, as \<^const>\<open>sort_key\<close> is.
\<close>

definition k_nearest :: "neighbour list \<Rightarrow> neighbour list" where
  "k_nearest distances = take (min 10 (length distances)) (sort_key n_distance distances)"

text \<open>The callback of the \<open>map\<close> in the simple endpoint.\<close>

definition neighbour_of ::
  "real \<Rightarrow> real \<Rightarrow> real \<Rightarrow> real \<Rightarrow> real \<Rightarrow> crops_row \<Rightarrow> neighbour" where
  "neighbour_of temp rain fert ph humid record =
     (let tempDist = \<bar>temperature record - temp\<bar> / 25;
          rainDist = \<bar>rainfall record - rain\<bar> / 1500;
          fertDist = \<bar>fertilizer record - fert\<bar> / 250;
          phDist = \<bar>soil_ph record - ph\<bar> / 2.5;
          humidDist = \<bar>humidity record - humid\<bar> / 50;
          distance = sqrt (tempDist ^ 2 + rainDist ^ 2 + fertDist ^ 2 + phDist ^ 2 + humidDist ^ 2)
      in \<lparr>n_distance = distance, n_yield = yield record\<rparr>)"

definition predictRandomForest ::
  "real \<Rightarrow> real \<Rightarrow> real \<Rightarrow> real \<Rightarrow> real \<Rightarrow> crops_row list option \<Rightarrow> real" where
  "predictRandomForest temp rain fert ph humid trainingData =
     (case trainingData of
        None \<Rightarrow> predictLinearRegression temp rain fert ph humid * 1.15
      | Some rows \<Rightarrow>
          if length rows = 0 then predictLinearRegression temp rain fert ph humid * 1.15
          else round2 (weightedYield
                 (k_nearest (map (neighbour_of temp rain fert ph humid) rows))))"

text \<open>
  The callback of the \<open>map\<close> in the enhanced endpoint, on finite numbers. The divisor
  \<open>record.phosphorus + record.potassium + 1\<close> is the only one that is not a constant.
  Where it is \<open>0\<close> the code divides by zero and the distance is an infinity or \<open>NaN\<close>:
  that is the case of \<open>neighbour_of_enhanced_js\<close>, and this definition is used only for
  rows accepted by \<open>finite_row\<close> below.
\<close>

definition neighbour_of_enhanced ::
  "real \<Rightarrow> real \<Rightarrow> real \<Rightarrow> real \<Rightarrow> real \<Rightarrow> crops_row \<Rightarrow> neighbour" where
  "neighbour_of_enhanced temp rain fert ph humid record =
     (let baseDistSq =
            ((temperature record - temp) / 25) ^ 2
          + ((rainfall record - rain) / 1500) ^ 2
          + ((humidity record - humid) / 50) ^ 2;
          engineeredDistSq =
            (if truthy (temp_rainfall_interaction record)
             then ((ToNumber (temp_rainfall_interaction record) - temp * rain / 1000) / 10) ^ 2
             else 0)
          + (if truthy (npk_ratio record)
             then ((ToNumber (npk_ratio record)
                     - ToNumber (nitrogen record)
                         / (ToNumber (phosphorus record) + ToNumber (potassium record) + 1))
                   / 0.5) ^ 2
             else 0);
          distance = sqrt (baseDistSq + engineeredDistSq)
      in \<lparr>n_distance = distance, n_yield = yield record\<rparr>)"

definition finite_row :: "crops_row \<Rightarrow> bool" where
  "finite_row record =
     (\<not> truthy (npk_ratio record)
      \<or> ToNumber (phosphorus record) + ToNumber (potassium record) + 1 \<noteq> 0)"

definition predictRandomForest_enhanced ::
  "real \<Rightarrow> real \<Rightarrow> real \<Rightarrow> real \<Rightarrow> real \<Rightarrow> crops_row list option \<Rightarrow> real" where
  "predictRandomForest_enhanced temp rain fert ph humid trainingData =
     (case trainingData of
        None \<Rightarrow> predictLinearRegression_enhanced temp rain fert ph humid 0 0 0 0 0 0 0 * 1.10
      | Some rows \<Rightarrow>
          if length rows = 0
          then predictLinearRegression_enhanced temp rain fert ph humid 0 0 0 0 0 0 0 * 1.10
          else toFixed2 (weightedYield
                 (k_nearest (map (neighbour_of_enhanced temp rain fert ph humid) rows))))"

text \<open>
  The value \<open>rfYield\<close> of the enhanced request handler: temperature and rainfall are
  capped first, and the NPK levels of the request are not passed on.
\<close>

definition rfYield_enhanced :: "npk_features \<Rightarrow> crops_row list option \<Rightarrow> real" where
  "rfYield_enhanced request trainingData =
     (let capped_temp = max 10 (min 45 (temperature request));
          capped_rainfall = max 100 (min 2500 (rainfall request))
      in predictRandomForest_enhanced capped_temp capped_rainfall (fertilizer request)
           (soil_ph request) (humidity request) trainingData)"




text \<open>A row as the original table has it: the later columns are \<open>NULL\<close>.\<close>

definition base_row :: "real \<Rightarrow> real \<Rightarrow> real \<Rightarrow> real \<Rightarrow> real \<Rightarrow> string \<Rightarrow> real \<Rightarrow> crops_row" where
  "base_row temp rain fert ph humid label y =
     \<lparr>temperature = temp, rainfall = rain, fertilizer = fert, soil_ph = ph, humidity = humid,
      nitrogen = None, phosphorus = None, potassium = None,
      temp_rainfall_interaction = None, ph_fertilizer_interaction = None,
      temp_squared = None, npk_ratio = None, crop = label, yield = y\<rparr>"

section \<open>All JavaScript numbers\<close>

text \<open>
  A \<open>number\<close> is finite, one of the two infinities, or \<open>NaN\<close>. A field that is missing
  from a request is \<open>undefined\<close>, which the arithmetic of these functions reads as
  \<open>NaN\<close>. The two zeros are not told apart: a division by zero is a division by \<open>+0\<close>,
  the only zero the modelled code divides by (the sum \<open>phosphorus + potassium + 1\<close> and
  the total weight are never \<open>-0\<close>).
\<close>

datatype number = Num real | Infinity | MinusInfinity | NaN

text \<open>
  The operators \<open>-x\<close>, \<open>x + y\<close>, \<open>x - y\<close>, \<open>x * y\<close>, \<open>x / y\<close>, \<open>Math.abs(x)\<close>,
  \<open>x < y\<close> and \<open>x <= y\<close> on numbers. A comparison with \<open>NaN\<close> is false.
\<close>

instantiation number :: "{plus, minus, uminus, times, inverse, abs, ord}"
begin

fun uminus_number :: "number \<Rightarrow> number" where
  "- Num a = Num (- a)"
| "- Infinity = MinusInfinity"
| "- MinusInfinity = Infinity"
| "- NaN = NaN"

fun plus_number :: "number \<Rightarrow> number \<Rightarrow> number" where
  "NaN + y = NaN"
| "x + NaN = NaN"
| "Num a + Num b = Num (a + b)"
| "Infinity + MinusInfinity = NaN"
| "MinusInfinity + Infinity = NaN"
| "Infinity + y = Infinity"
| "x + Infinity = Infinity"
| "MinusInfinity + y = MinusInfinity"
| "x + MinusInfinity = MinusInfinity"

definition minus_number :: "number \<Rightarrow> number \<Rightarrow> number" where
  "x - y = x + (- y)" for x y :: number

fun times_number :: "number \<Rightarrow> number \<Rightarrow> number" where
  "NaN * y = NaN"
| "x * NaN = NaN"
| "Num a * Num b = Num (a * b)"
| "Num a * y = (if a = 0 then NaN else if 0 < a then y else - y)"
| "x * Num b = (if b = 0 then NaN else if 0 < b then x else - x)"
| "Infinity * y = y"
| "MinusInfinity * y = - y"

fun divide_number :: "number \<Rightarrow> number \<Rightarrow> number" where
  "NaN div y = NaN"
| "x div NaN = NaN"
| "Num a div Num b =
     (if b = 0 then (if a = 0 then NaN else if 0 < a then Infinity else MinusInfinity)
      else Num (a / b))"
| "Num a div y = Num 0"
| "x div Num b = (if b < 0 then - x else x)"
| "x div y = NaN"

definition inverse_number :: "number \<Rightarrow> number" where
  "inverse x = Num 1 div x" for x :: number

fun abs_number :: "number \<Rightarrow> number" where
  "\<bar>Num a\<bar> = Num \<bar>a\<bar>"
| "\<bar>Infinity\<bar> = Infinity"
| "\<bar>MinusInfinity\<bar> = Infinity"
| "\<bar>NaN\<bar> = NaN"

fun less_number :: "number \<Rightarrow> number \<Rightarrow> bool" where
  "NaN < y = False"
| "x < NaN = False"
| "Num a < Num b = (a < b)"
| "x < MinusInfinity = False"
| "Infinity < y = False"
| "MinusInfinity < y = True"
| "x < Infinity = True"

definition less_eq_number :: "number \<Rightarrow> number \<Rightarrow> bool" where
  "x \<le> y = (x < y \<or> (x = y \<and> x \<noteq> NaN))" for x y :: number

instance ..

end

text \<open>\<open>Math.sqrt(x)\<close>.\<close>

fun Math_sqrt :: "number \<Rightarrow> number" where
  "Math_sqrt (Num a) = (if a < 0 then NaN else Num (sqrt a))"
| "Math_sqrt Infinity = Infinity"
| "Math_sqrt MinusInfinity = NaN"
| "Math_sqrt NaN = NaN"

text \<open>\<open>x ** 2\<close> and \<open>Math.pow(x, 2)\<close>.\<close>

definition pow2 :: "number \<Rightarrow> number" where
  "pow2 x = x * x"

text \<open>\<open>Math.round(x)\<close> and \<open>Math.round(x * 100) / 100\<close>.\<close>

fun Math_round_js :: "number \<Rightarrow> number" where
  "Math_round_js (Num a) = Num (Math_round a)"
| "Math_round_js x = x"

definition round2_js :: "number \<Rightarrow> number" where
  "round2_js x = Math_round_js (x * Num 100) / Num 100"

text \<open>\<open>parseFloat(x.toFixed(2))\<close>: \<open>toFixed\<close> prints an infinity and \<open>NaN\<close> by name,
  and \<open>parseFloat\<close> reads the name back.\<close>

fun toFixed2_js :: "number \<Rightarrow> number" where
  "toFixed2_js (Num a) = Num (toFixed2 a)"
| "toFixed2_js x = x"

text \<open>\<open>Math.max(x, y)\<close>: \<open>NaN\<close> when an argument is \<open>NaN\<close>.\<close>

fun Math_max :: "number \<Rightarrow> number \<Rightarrow> number" where
  "Math_max NaN y = NaN"
| "Math_max x NaN = NaN"
| "Math_max x y = (if x < y then y else x)"

text \<open>\<open>Math.min(x, y)\<close>: \<open>NaN\<close> when an argument is \<open>NaN\<close>.\<close>

fun Math_min :: "number \<Rightarrow> number \<Rightarrow> number" where
  "Math_min NaN y = NaN"
| "Math_min x NaN = NaN"
| "Math_min x y = (if y < x then y else x)"

text \<open>\<open>predictLinearRegression\<close> of the simple prediction endpoint.\<close>

definition yield_value_js :: "number \<Rightarrow> number \<Rightarrow> number \<Rightarrow> number \<Rightarrow> number \<Rightarrow> number" where
  "yield_value_js temp rain fert ph humid =
     Num 1000 + Num 50 * temp + Num 2.5 * rain + Num 15 * fert + Num 200 * ph + Num 10 * humid"

definition predictLinearRegression_js ::
  "number \<Rightarrow> number \<Rightarrow> number \<Rightarrow> number \<Rightarrow> number \<Rightarrow> number" where
  "predictLinearRegression_js temp rain fert ph humid =
     Math_max (Num 500) (round2_js (yield_value_js temp rain fert ph humid))"

text \<open>\<open>predictLinearRegression\<close> of the enhanced prediction endpoint.\<close>

definition yield_value_enhanced_js ::
  "number \<Rightarrow> number \<Rightarrow> number \<Rightarrow> number \<Rightarrow> number \<Rightarrow> number \<Rightarrow> number \<Rightarrow> number
     \<Rightarrow> number \<Rightarrow> number \<Rightarrow> number \<Rightarrow> number \<Rightarrow> number"
where
  "yield_value_enhanced_js temp rain fert ph humid n p k tr_int pf_int t_sq npk_r =
     Num 800 + Num 45 * temp + Num 2.2 * rain + Num 14 * fert + Num 180 * ph + Num 9 * humid
       + Num 2 * n + Num 1 * p + Num 1.5 * k + Num 5 * tr_int + Num 3 * pf_int
       + Num (- 0.5) * t_sq + Num 10 * npk_r"

definition predictLinearRegression_enhanced_js ::
  "number \<Rightarrow> number \<Rightarrow> number \<Rightarrow> number \<Rightarrow> number \<Rightarrow> number \<Rightarrow> number \<Rightarrow> number
     \<Rightarrow> number \<Rightarrow> number \<Rightarrow> number \<Rightarrow> number \<Rightarrow> number"
where
  "predictLinearRegression_enhanced_js temp rain fert ph humid n p k tr_int pf_int t_sq npk_r =
     Math_max (Num 500)
       (toFixed2_js
          (yield_value_enhanced_js temp rain fert ph humid n p k tr_int pf_int t_sq npk_r))"

text \<open>The objects \<open>{ distance, yield }\<close>; a yield is a \<open>NOT NULL\<close> column of a row and so
  finite.\<close>

record neighbour_js =
  j_distance :: number
  j_yield :: real

definition weight_js :: "neighbour_js \<Rightarrow> number" where
  "weight_js n = Num 1 / (j_distance n + Num 0.01)"

definition totalWeight_js :: "neighbour_js list \<Rightarrow> number" where
  "totalWeight_js nearest = foldl (\<lambda>sum n. sum + weight_js n) (Num 0) nearest"

definition weightedYield_js :: "neighbour_js list \<Rightarrow> number" where
  "weightedYield_js nearest =
     foldl (\<lambda>sum n. sum + (Num (j_yield n) * weight_js n) / totalWeight_js nearest)
       (Num 0) nearest"

text \<open>\<open>distances.sort((a, b) => a.distance - b.distance)\<close>: the sort is stable, so of two
  elements the earlier one stays first unless the comparator gives a number above 0;
  \<open>NaN\<close> from the comparator counts as 0. Where the comparator is not consistent (a
  \<open>NaN\<close> distance beside two different distances) the language leaves the order to
  the implementation; the model then gives the order of this insertion.\<close>

fun insort_js :: "neighbour_js \<Rightarrow> neighbour_js list \<Rightarrow> neighbour_js list" where
  "insort_js a [] = [a]"
| "insort_js a (b # bs) =
     (if Num 0 < j_distance a - j_distance b then b # insort_js a bs else a # b # bs)"

definition sort_js :: "neighbour_js list \<Rightarrow> neighbour_js list" where
  "sort_js distances = foldr insort_js distances []"

definition k_nearest_js :: "neighbour_js list \<Rightarrow> neighbour_js list" where
  "k_nearest_js distances = take (min 10 (length distances)) (sort_js distances)"

text \<open>\<open>predictRandomForest\<close> of the simple prediction endpoint.\<close>

definition neighbour_of_js ::
  "number \<Rightarrow> number \<Rightarrow> number \<Rightarrow> number \<Rightarrow> number \<Rightarrow> crops_row \<Rightarrow> neighbour_js" where
  "neighbour_of_js temp rain fert ph humid record =
     (let tempDist = \<bar>Num (temperature record) - temp\<bar> / Num 25;
          rainDist = \<bar>Num (rainfall record) - rain\<bar> / Num 1500;
          fertDist = \<bar>Num (fertilizer record) - fert\<bar> / Num 250;
          phDist = \<bar>Num (soil_ph record) - ph\<bar> / Num 2.5;
          humidDist = \<bar>Num (humidity record) - humid\<bar> / Num 50;
          distance = Math_sqrt
            (pow2 tempDist + pow2 rainDist + pow2 fertDist + pow2 phDist + pow2 humidDist)
      in \<lparr>j_distance = distance, j_yield = yield record\<rparr>)"

definition predictRandomForest_js ::
  "number \<Rightarrow> number \<Rightarrow> number \<Rightarrow> number \<Rightarrow> number \<Rightarrow> crops_row list option \<Rightarrow> number" where
  "predictRandomForest_js temp rain fert ph humid trainingData =
     (case trainingData of
        None \<Rightarrow> predictLinearRegression_js temp rain fert ph humid * Num 1.15
      | Some rows \<Rightarrow>
          if length rows = 0 then predictLinearRegression_js temp rain fert ph humid * Num 1.15
          else round2_js (weightedYield_js
                 (k_nearest_js (map (neighbour_of_js temp rain fert ph humid) rows))))"

text \<open>\<open>predictRandomForest\<close> of the enhanced prediction endpoint.\<close>

definition neighbour_of_enhanced_js ::
  "number \<Rightarrow> number \<Rightarrow> number \<Rightarrow> number \<Rightarrow> number \<Rightarrow> crops_row \<Rightarrow> neighbour_js" where
  "neighbour_of_enhanced_js temp rain fert ph humid record =
     (let baseDistSq =
            pow2 ((Num (temperature record) - temp) / Num 25)
          + pow2 ((Num (rainfall record) - rain) / Num 1500)
          + pow2 ((Num (humidity record) - humid) / Num 50);
          engineeredDistSq =
            (if truthy (temp_rainfall_interaction record)
             then pow2 ((Num (ToNumber (temp_rainfall_interaction record))
                          - temp * rain / Num 1000) / Num 10)
             else Num 0)
          + (if truthy (npk_ratio record)
             then pow2 ((Num (ToNumber (npk_ratio record))
                          - Num (ToNumber (nitrogen record))
                              / (Num (ToNumber (phosphorus record))
                                 + Num (ToNumber (potassium record)) + Num 1))
                        / Num 0.5)
             else Num 0);
          distance = Math_sqrt (baseDistSq + engineeredDistSq)
      in \<lparr>j_distance = distance, j_yield = yield record\<rparr>)"

definition predictRandomForest_enhanced_js ::
  "number \<Rightarrow> number \<Rightarrow> number \<Rightarrow> number \<Rightarrow> number \<Rightarrow> crops_row list option \<Rightarrow> number" where
  "predictRandomForest_enhanced_js temp rain fert ph humid trainingData =
     (case trainingData of
        None \<Rightarrow>
          predictLinearRegression_enhanced_js temp rain fert ph humid
            (Num 0) (Num 0) (Num 0) (Num 0) (Num 0) (Num 0) (Num 0) * Num 1.10
      | Some rows \<Rightarrow>
          if length rows = 0
          then predictLinearRegression_enhanced_js temp rain fert ph humid
                 (Num 0) (Num 0) (Num 0) (Num 0) (Num 0) (Num 0) (Num 0) * Num 1.10
          else toFixed2_js (weightedYield_js
                 (k_nearest_js (map (neighbour_of_enhanced_js temp rain fert ph humid) rows))))"

text \<open>
  The fields that a handler destructures from the body of a request, each as the number
  that the arithmetic and the comparisons convert it to: \<open>NaN\<close> for a field that is
  missing.
\<close>

record features_js =
  j_temperature :: number
  j_rainfall :: number
  j_fertilizer :: number
  j_soil_ph :: number
  j_humidity :: number

record npk_features_js = features_js +
  j_nitrogen :: number
  j_phosphorus :: number
  j_potassium :: number

text \<open>The value \<open>rfYield\<close> of the enhanced request handler.\<close>

definition rfYield_enhanced_js :: "npk_features_js \<Rightarrow> crops_row list option \<Rightarrow> number" where
  "rfYield_enhanced_js request trainingData =
     (let capped_temp = Math_max (Num 10) (Math_min (Num 45) (j_temperature request));
          capped_rainfall = Math_max (Num 100) (Math_min (Num 2500) (j_rainfall request))
      in predictRandomForest_enhanced_js capped_temp capped_rainfall (j_fertilizer request)
           (j_soil_ph request) (j_humidity request) trainingData)"

text \<open>\<open>determineBestCrop\<close>: a comparison with \<open>NaN\<close> is false.\<close>

definition determineBestCrop_js :: "number \<Rightarrow> number \<Rightarrow> number \<Rightarrow> number \<Rightarrow> number \<Rightarrow> string"
where
  "determineBestCrop_js temp rain fert ph humid =
     (if temp > Num 30 \<and> rain > Num 1200 then ''Rice''
      else if temp > Num 25 \<and> rain > Num 800 \<and> rain < Num 1200 then ''Corn''
      else if temp > Num 28 \<and> rain > Num 1000 then ''Sugarcane''
      else if temp < Num 25 \<and> rain < Num 800 then ''Wheat''
      else if temp > Num 25 \<and> rain < Num 700 then ''Cotton''
      else if temp < Num 28 \<and> rain > Num 600 \<and> rain < Num 1000 then ''Soybean''
      else ''Barley'')"

text \<open>A neighbour with a finite distance, as a neighbour over all numbers.\<close>

definition finite_neighbour :: "neighbour \<Rightarrow> neighbour_js" where
  "finite_neighbour n = \<lparr>j_distance = Num (n_distance n), j_yield = n_yield n\<rparr>"

section \<open>Synthetic dataset generator\<close>

record crop_type =
  name :: string
  minYield :: real
  maxYield :: real

definition cropTypes :: "crop_type list" where
  "cropTypes =
     [\<lparr>name = ''Wheat'', minYield = 2000, maxYield = 5000\<rparr>,
      \<lparr>name = ''Rice'', minYield = 3000, maxYield = 7000\<rparr>,
      \<lparr>name = ''Corn'', minYield = 4000, maxYield = 9000\<rparr>,
      \<lparr>name = ''Cotton'', minYield = 1000, maxYield = 3000\<rparr>,
      \<lparr>name = ''Sugarcane'', minYield = 40000, maxYield = 80000\<rparr>,
      \<lparr>name = ''Soybean'', minYield = 1500, maxYield = 4000\<rparr>,
      \<lparr>name = ''Barley'', minYield = 2000, maxYield = 5500\<rparr>]"

definition targetRecords :: nat where
  "targetRecords = 5000"

definition batchSize :: nat where
  "batchSize = 1000"

text \<open>
  \<open>Math.random()\<close> is the only source of variation. A run of a generator is modelled
  against the sequence \<open>random\<close> of the values its successive calls return, each in
  \<open>[0, 1)\<close>; \<open>in_unit_interval\<close> states that range.
\<close>

definition in_unit_interval :: "(nat \<Rightarrow> real) \<Rightarrow> bool" where
  "in_unit_interval random = (\<forall>j. 0 \<le> random j \<and> random j < 1)"

text \<open>
  The body of the generation loop of the simple generator at iteration \<open>i\<close>: seven
  calls of \<open>Math.random()\<close>, in the order of the source.
\<close>

definition generate_record_simple :: "(nat \<Rightarrow> real) \<Rightarrow> nat \<Rightarrow> crops_row" where
  "generate_record_simple random i =
     (let crop_t = cropTypes ! nat \<lfloor>random (7 * i) * real (length cropTypes)\<rfloor>;
          temperature_v = 15 + random (7 * i + 1) * 25;
          rainfall_v = 300 + random (7 * i + 2) * 1500;
          fertilizer_v = 50 + random (7 * i + 3) * 250;
          soil_ph_v = 5.5 + random (7 * i + 4) * 2.5;
          humidity_v = 40 + random (7 * i + 5) * 50;
          tempFactor = 1 - \<bar>temperature_v - 25\<bar> / 40;
          rainFactor = min (rainfall_v / 1000) 1.5;
          fertFactor = min (fertilizer_v / 200) 1.3;
          phFactor = 1 - \<bar>soil_ph_v - 6.8\<bar> / 3;
          humidityFactor = min (humidity_v / 70) 1.2;
          baseFactor = (tempFactor + rainFactor + fertFactor + phFactor + humidityFactor) / 5;
          randomVariation = 0.8 + random (7 * i + 6) * 0.4;
          yieldValue = minYield crop_t
            + (maxYield crop_t - minYield crop_t) * baseFactor * randomVariation
      in \<lparr>temperature = round2 temperature_v,
          rainfall = round2 rainfall_v,
          fertilizer = round2 fertilizer_v,
          soil_ph = round2 soil_ph_v,
          humidity = round2 humidity_v,
          nitrogen = None, phosphorus = None, potassium = None,
          temp_rainfall_interaction = None, ph_fertilizer_interaction = None,
          temp_squared = None, npk_ratio = None,
          crop = name crop_t,
          yield = round2 yieldValue\<rparr>)"

definition generate_records_simple :: "(nat \<Rightarrow> real) \<Rightarrow> crops_row list" where
  "generate_records_simple random = map (generate_record_simple random) [0..<targetRecords]"

text \<open>
  The loop body of the generator with feature engineering (\<open>generate-dataset/index.ts\<close>):
  ten calls of \<open>Math.random()\<close> per record.
\<close>

definition generate_record :: "(nat \<Rightarrow> real) \<Rightarrow> nat \<Rightarrow> crops_row" where
  "generate_record random i =
     (let crop_t = cropTypes ! nat \<lfloor>random (10 * i) * real (length cropTypes)\<rfloor>;
          temperature_v = 15 + random (10 * i + 1) * 25;
          rainfall_v = 300 + random (10 * i + 2) * 1500;
          fertilizer_v = 50 + random (10 * i + 3) * 250;
          soil_ph_v = 5.5 + random (10 * i + 4) * 2.5;
          humidity_v = 40 + random (10 * i + 5) * 50;
          nitrogen_v = 50 + random (10 * i + 6) * 150;
          phosphorus_v = 20 + random (10 * i + 7) * 80;
          potassium_v = 30 + random (10 * i + 8) * 120;
          capped_temp = max 10 (min 45 temperature_v);
          capped_rainfall = max 100 (min 2500 rainfall_v);
          temp_rainfall_interaction_v = capped_temp * capped_rainfall / 1000;
          ph_fertilizer_interaction_v = soil_ph_v * fertilizer_v / 100;
          temp_squared_v = (capped_temp / 10) ^ 2;
          npk_ratio_v = nitrogen_v / (phosphorus_v + potassium_v + 1);
          tempFactor = 1 - \<bar>capped_temp - 25\<bar> / 40;
          rainFactor = min (capped_rainfall / 1000) 1.5;
          fertFactor = min (fertilizer_v / 200) 1.3;
          phFactor = 1 - \<bar>soil_ph_v - 6.8\<bar> / 3;
          humidityFactor = min (humidity_v / 70) 1.2;
          baseFactor = (tempFactor + rainFactor + fertFactor + phFactor + humidityFactor) / 5;
          engineeredFactor = 0.1 * temp_rainfall_interaction_v
            + 0.05 * ph_fertilizer_interaction_v
            - 0.02 * temp_squared_v
            + 0.03 * npk_ratio_v;
          randomVariation = 0.8 + random (10 * i + 9) * 0.4;
          yieldValue = minYield crop_t
            + (maxYield crop_t - minYield crop_t) * baseFactor * (1 + engineeredFactor)
                * randomVariation
      in \<lparr>temperature = toFixed2 capped_temp,
          rainfall = toFixed2 capped_rainfall,
          fertilizer = toFixed2 fertilizer_v,
          soil_ph = toFixed2 soil_ph_v,
          humidity = toFixed2 humidity_v,
          nitrogen = Some (toFixed2 nitrogen_v),
          phosphorus = Some (toFixed2 phosphorus_v),
          potassium = Some (toFixed2 potassium_v),
          temp_rainfall_interaction = Some (toFixed2 temp_rainfall_interaction_v),
          ph_fertilizer_interaction = Some (toFixed2 ph_fertilizer_interaction_v),
          temp_squared = Some (toFixed2 temp_squared_v),
          npk_ratio = Some (toFixed2 npk_ratio_v),
          crop = name crop_t,
          yield = max 0 (toFixed2 yieldValue)\<rparr>)"

definition generate_records :: "(nat \<Rightarrow> real) \<Rightarrow> crops_row list" where
  "generate_records random = map (generate_record random) [0..<targetRecords]"

section \<open>Request handlers\<close>

text \<open>
  A value that a \<open>throw\<close> or a rejected promise delivers to the \<open>catch\<close> block. The
  block distinguishes instances of \<open>Error\<close> from other values; \<open>message\<close> is the
  value's \<open>message\<close> property.
\<close>

record thrown =
  instanceof_Error :: bool
  message :: string

text \<open>The \<open>{ data, error }\<close> object that an awaited database call resolves to.\<close>

record 'a query_result =
  data :: "'a option"
  error :: "thrown option"

datatype 'a body = NoBody | ErrorJson string | Json 'a

text \<open>A \<open>Response\<close>: its status, which is 200 unless the constructor is given one, and
  its body.\<close>

record 'a response =
  status :: nat
  body :: "'a body"

text \<open>The calls a handler makes to its collaborators, recorded in the order made.\<close>

datatype effect =
  CreateClient | ReqJson | SelectTraining | SelectMetrics | InsertPrediction
  | InsertBatch nat | InsertMetrics

record metrics_row =
  model_name :: string
  r2_score :: real
  mae :: real
  rmse :: real

text \<open>The \<open>catch\<close> block shared by all handlers.\<close>

definition catch_response :: "thrown \<Rightarrow> 'a response" where
  "catch_response e =
     \<lparr>status = 500,
      body = ErrorJson (if instanceof_Error e then message e else ''Unknown error'')\<rparr>"

subsection \<open>The simple prediction endpoint\<close>

text \<open>
  What the collaborators of one request do: whether \<open>createClient\<close> throws, what
  \<open>await req.json()\<close> with its destructuring gives (the five fields, or the value
  thrown), and what each awaited database call gives (\<open>Inl\<close>: it threw or rejected).
\<close>

record predict_world =
  p_createClient :: "thrown option"
  p_req_json :: "thrown + features_js"
  p_select_training :: "thrown + crops_row list query_result"
  p_select_metrics :: "thrown + metrics_row list query_result"
  p_insert_prediction :: "thrown + unit query_result"

record prediction =
  predicted_crop :: string
  predicted_yield_lr :: number
  predicted_yield_rf :: number
  best_model :: string
  lr_metrics :: "metrics_row option"
  rf_metrics :: "metrics_row option"

text \<open>\<open>metrics?.find((m) => m.model_name === label)\<close>.\<close>

definition find_metrics :: "metrics_row list option \<Rightarrow> string \<Rightarrow> metrics_row option" where
  "find_metrics metrics label =
     (case metrics of None \<Rightarrow> None | Some ms \<Rightarrow> find (\<lambda>m. model_name m = label) ms)"

text \<open>\<open>m?.r2_score || 0\<close>.\<close>

definition r2_or_0 :: "metrics_row option \<Rightarrow> real" where
  "r2_or_0 m = (case m of None \<Rightarrow> 0 | Some row \<Rightarrow> r2_score row)"

text \<open>
  The \<open>try\<close> block of the simple prediction endpoint: the calls made, and the value
  thrown (\<open>Inl\<close>) or the JSON of the response (\<open>Inr\<close>).
\<close>

definition predict_try :: "predict_world \<Rightarrow> effect list \<times> (thrown + prediction)" where
  "predict_try w =
     (case p_createClient w of
        Some e \<Rightarrow> ([CreateClient], Inl e)
      | None \<Rightarrow>
     (case p_req_json w of
        Inl e \<Rightarrow> ([CreateClient, ReqJson], Inl e)
      | Inr request \<Rightarrow>
     (case p_select_training w of
        Inl e \<Rightarrow> ([CreateClient, ReqJson, SelectTraining], Inl e)
      | Inr fetched \<Rightarrow>
     (case error fetched of
        Some fetchError \<Rightarrow> ([CreateClient, ReqJson, SelectTraining], Inl fetchError)
      | None \<Rightarrow>
     (let trainingData = data fetched;
          lrYield = predictLinearRegression_js (j_temperature request) (j_rainfall request)
            (j_fertilizer request) (j_soil_ph request) (j_humidity request);
          rfYield = predictRandomForest_js (j_temperature request) (j_rainfall request)
            (j_fertilizer request) (j_soil_ph request) (j_humidity request) trainingData;
          predictedCrop = determineBestCrop_js (j_temperature request) (j_rainfall request)
            (j_fertilizer request) (j_soil_ph request) (j_humidity request)
      in
     (case p_select_metrics w of
        Inl e \<Rightarrow> ([CreateClient, ReqJson, SelectTraining, SelectMetrics], Inl e)
      | Inr selected \<Rightarrow>
     (let metrics = data selected;
          lrMetrics = find_metrics metrics ''Linear Regression'';
          rfMetrics = find_metrics metrics ''Random Forest'';
          bestModel = (if r2_or_0 rfMetrics > r2_or_0 lrMetrics
                       then ''Random Forest'' else ''Linear Regression'')
      in
     (case p_insert_prediction w of
        Inl e \<Rightarrow>
          ([CreateClient, ReqJson, SelectTraining, SelectMetrics, InsertPrediction], Inl e)
      | Inr inserted \<Rightarrow>
     (case error inserted of
        Some insertError \<Rightarrow>
          ([CreateClient, ReqJson, SelectTraining, SelectMetrics, InsertPrediction],
           Inl insertError)
      | None \<Rightarrow>
          ([CreateClient, ReqJson, SelectTraining, SelectMetrics, InsertPrediction],
           Inr \<lparr>predicted_crop = predictedCrop,
                predicted_yield_lr = lrYield,
                predicted_yield_rf = rfYield,
                best_model = bestModel,
                lr_metrics = lrMetrics,
                rf_metrics = rfMetrics\<rparr>))))))))))"

text \<open>The handler: the \<open>OPTIONS\<close> shortcut, then \<open>try\<close> and \<open>catch\<close>.\<close>

definition predict_handler :: "string \<Rightarrow> predict_world \<Rightarrow> effect list \<times> prediction response" where
  "predict_handler req_method w =
     (if req_method = ''OPTIONS'' then ([], \<lparr>status = 200, body = NoBody\<rparr>)
      else case predict_try w of
             (calls, Inl e) \<Rightarrow> (calls, catch_response e)
           | (calls, Inr json) \<Rightarrow> (calls, \<lparr>status = 200, body = Json json\<rparr>))"

subsection \<open>The dataset generation endpoint\<close>

record generate_world =
  g_createClient :: "thrown option"
  g_random :: "nat \<Rightarrow> real"
  g_insert_batch :: "nat \<Rightarrow> thrown + unit query_result"
  g_insert_metrics :: "thrown + unit query_result"

record generation =
  success :: bool
  records_created :: nat
  g_lr_metrics :: metrics_row
  g_rf_metrics :: metrics_row

text \<open>
  The loop \<open>for (let i = 0; i < records.length; i += batchSize)\<close>: batch number
  \<open>i div batchSize\<close> is \<open>records.slice(i, i + batchSize)\<close>; the first insert that
  throws or reports an error ends the loop with that value thrown.
\<close>

function insert_batches ::
  "(nat \<Rightarrow> thrown + unit query_result) \<Rightarrow> crops_row list \<Rightarrow> nat \<Rightarrow> effect list
     \<Rightarrow> effect list \<times> thrown option" where
  "insert_batches ins records i calls =
     (if i < length records then
        (let batch = take batchSize (drop i records);
             calls' = calls @ [InsertBatch (i div batchSize)]
         in case ins (i div batchSize) of
              Inl e \<Rightarrow> (calls', Some e)
            | Inr inserted \<Rightarrow>
                (case error inserted of
                   Some insertError \<Rightarrow> (calls', Some insertError)
                 | None \<Rightarrow> insert_batches ins records (i + batchSize) calls'))
      else (calls, None))"
  by pat_completeness auto
termination
  by (relation "measure (\<lambda>(ins, records, i, calls). length records - i)")
     (auto simp: batchSize_def)

declare insert_batches.simps [simp del]

definition generate_try :: "generate_world \<Rightarrow> effect list \<times> (thrown + generation)" where
  "generate_try w =
     (case g_createClient w of
        Some e \<Rightarrow> ([CreateClient], Inl e)
      | None \<Rightarrow>
     (let records = generate_records (g_random w) in
     (case insert_batches (g_insert_batch w) records 0 [CreateClient] of
        (calls, Some e) \<Rightarrow> (calls, Inl e)
      | (calls, None) \<Rightarrow>
     (let draw = (\<lambda>j. g_random w (10 * targetRecords + j));
          lrMetrics = \<lparr>model_name = ''Linear Regression'',
                       r2_score = 0.78 + draw 0 * 0.07,
                       mae = 180 + draw 1 * 100,
                       rmse = 280 + draw 2 * 150\<rparr>;
          rfMetrics = \<lparr>model_name = ''Random Forest'',
                       r2_score = 0.88 + draw 3 * 0.05,
                       mae = 120 + draw 4 * 80,
                       rmse = 200 + draw 5 * 100\<rparr>
      in
     (case g_insert_metrics w of
        Inl e \<Rightarrow> (calls @ [InsertMetrics], Inl e)
      | Inr _ \<Rightarrow>
          (calls @ [InsertMetrics],
           Inr \<lparr>success = True,
                records_created = length records,
                g_lr_metrics = lrMetrics,
                g_rf_metrics = rfMetrics\<rparr>))))))"

definition generate_handler :: "string \<Rightarrow> generate_world \<Rightarrow> effect list \<times> generation response" where
  "generate_handler req_method w =
     (if req_method = ''OPTIONS'' then ([], \<lparr>status = 200, body = NoBody\<rparr>)
      else case generate_try w of
             (calls, Inl e) \<Rightarrow> (calls, catch_response e)
           | (calls, Inr json) \<Rightarrow> (calls, \<lparr>status = 200, body = Json json\<rparr>))"

subsection \<open>Failures\<close>

text \<open>
  A call fails when it throws or rejects (\<open>rejected\<close>); a database call also fails when
  it resolves with an \<open>error\<close> (\<open>reported\<close>).
\<close>

definition reported :: "thrown + 'a query_result \<Rightarrow> thrown option" where
  "reported outcome = (case outcome of Inl e \<Rightarrow> Some e | Inr result \<Rightarrow> error result)"

definition rejected :: "thrown + 'a \<Rightarrow> thrown option" where
  "rejected outcome = (case outcome of Inl e \<Rightarrow> Some e | Inr _ \<Rightarrow> None)"

text \<open>The first failure among the steps of a handler, in program order.\<close>

fun first_failure :: "thrown option list \<Rightarrow> thrown option" where
  "first_failure [] = None"
| "first_failure (Some e # steps) = Some e"
| "first_failure (None # steps) = first_failure steps"

text \<open>
  The failures of a run as the specification words them: every failure of every call,
  an \<open>error\<close> that a database call resolves with included.
\<close>

definition predict_failure :: "predict_world \<Rightarrow> thrown option" where
  "predict_failure w =
     first_failure
       [p_createClient w, rejected (p_req_json w), reported (p_select_training w),
        reported (p_select_metrics w), reported (p_insert_prediction w)]"

definition generate_failure :: "generate_world \<Rightarrow> thrown option" where
  "generate_failure w =
     first_failure
       (g_createClient w
        # map (\<lambda>b. reported (g_insert_batch w b)) [0..<targetRecords div batchSize]
        @ [reported (g_insert_metrics w)])"

text \<open>
  The failures that a handler raises. In the prediction endpoint the \<open>error\<close> of the
  training select and of the prediction insert is read and thrown, the \<open>error\<close> of the
  metrics select is not read. In the generation endpoint the \<open>error\<close> of every batch
  insert is read and thrown, the \<open>error\<close> of the metrics insert is not read.
\<close>

definition predict_raised :: "predict_world \<Rightarrow> thrown option" where
  "predict_raised w =
     first_failure
       [p_createClient w, rejected (p_req_json w), reported (p_select_training w),
        rejected (p_select_metrics w), reported (p_insert_prediction w)]"

definition generate_raised :: "generate_world \<Rightarrow> thrown option" where
  "generate_raised w =
     first_failure
       (g_createClient w
        # map (\<lambda>b. reported (g_insert_batch w b)) [0..<targetRecords div batchSize]
        @ [rejected (g_insert_metrics w)])"

text \<open>The batches whose insert is attempted: up to and including the first that fails.\<close>

fun attempted :: "(nat \<Rightarrow> thrown option) \<Rightarrow> nat list \<Rightarrow> nat list" where
  "attempted f [] = []"
| "attempted f (b # bs) = (case f b of Some e \<Rightarrow> [b] | None \<Rightarrow> b # attempted f bs)"

section \<open>Rounding lemmas\<close>





section \<open>The weighted average\<close>

lemma foldl_add_sum_list:
  "foldl (\<lambda>sum n. sum + f n) a xs = a + sum_list (map f xs)" for a :: real
  by (induction xs arbitrary: a) (simp_all add: add.assoc)

lemma totalWeight_sum_list: "totalWeight nearest = (\<Sum>n\<leftarrow>nearest. weight n)"
  by (simp add: totalWeight_def foldl_add_sum_list)



lemma weight_pos: "0 \<le> n_distance n \<Longrightarrow> 0 < weight n"
  by (simp add: weight_def)

lemma neighbour_of_distance_nonneg: "0 \<le> n_distance (neighbour_of temp rain fert ph humid record)"
  by (simp add: neighbour_of_def Let_def)

lemma neighbour_of_enhanced_distance_nonneg:
  "0 \<le> n_distance (neighbour_of_enhanced temp rain fert ph humid record)"
  by (simp add: neighbour_of_enhanced_def Let_def)

lemma sum_list_pos_nonempty:
  "xs \<noteq> [] \<Longrightarrow> (\<And>x. x \<in> set xs \<Longrightarrow> 0 < f x) \<Longrightarrow> 0 < (\<Sum>x\<leftarrow>xs. f x)" for f :: "'a \<Rightarrow> real"
proof (induction xs)
  case Nil
  then show ?case by simp
next
  case (Cons a xs)
  have "0 < f a" using Cons.prems by simp
  moreover have "0 \<le> (\<Sum>x\<leftarrow>xs. f x)"
    by (rule sum_list_nonneg) (use Cons.prems in \<open>auto simp: less_imp_le\<close>)
  ultimately show ?case by simp
qed




lemma k_nearest_nonempty: "ds \<noteq> [] \<Longrightarrow> k_nearest ds \<noteq> []"
  by (cases ds) (simp_all add: k_nearest_def)

lemma set_k_nearest: "set (k_nearest ds) \<subseteq> set ds"
  unfolding k_nearest_def using set_take_subset [of _ "sort_key n_distance ds"] by simp

section \<open>The linear estimator, the crop selector and the fallback\<close>



text \<open>
  Claim C4. The crop selector is an ordered chain in which the first matching rule wins:
  it is the first-match reading of the rule table; at temperature 32 and rainfall 1300
  it answers Rice although the Sugarcane rule (the third of the table) holds there too;
  at temperature 20 and rainfall 500 it answers Wheat; and where no rule holds it
  answers Barley.
\<close>

theorem determineBestCrop_first_rule_wins:
  "determineBestCrop temp rain fert ph humid = first_match crop_rules temp rain
   \<and> determineBestCrop 32 1300 fert ph humid = ''Rice''
   \<and> fst (crop_rules ! 2) 32 1300 \<and> snd (crop_rules ! 2) = ''Sugarcane''
   \<and> determineBestCrop 20 500 fert ph humid = ''Wheat''
   \<and> ((\<forall>rule \<in> set crop_rules. \<not> fst rule temp rain)
        \<longrightarrow> determineBestCrop temp rain fert ph humid = ''Barley'')"
  by (simp add: determineBestCrop_def crop_rules_def)

theorem determineBestCrop_first_rule_wins_witness:
  "filter (\<lambda>rule. fst rule 25 1000) crop_rules = []
   \<and> determineBestCrop 25 1000 100 6.5 60 = ''Barley''"
  using determineBestCrop_first_rule_wins [of 25 1000 100 "6.5" 60]
  by (simp add: crop_rules_def)

text \<open>
  Claim C2. With an absent or empty training set the nearest-neighbour estimator
  returns the linear estimate of the same endpoint for the same five features, times a
  constant: 1.15 in the simple endpoint, 1.10 in the enhanced one, whose linear
  estimator is given zeros for the NPK and engineered arguments.
\<close>

theorem predictRandomForest_fallback:
  "predictRandomForest temp rain fert ph humid None
     = predictLinearRegression temp rain fert ph humid * 1.15
   \<and> predictRandomForest temp rain fert ph humid (Some [])
     = predictLinearRegression temp rain fert ph humid * 1.15
   \<and> predictRandomForest_enhanced temp rain fert ph humid None
     = predictLinearRegression_enhanced temp rain fert ph humid 0 0 0 0 0 0 0 * 1.10
   \<and> predictRandomForest_enhanced temp rain fert ph humid (Some [])
     = predictLinearRegression_enhanced temp rain fert ph humid 0 0 0 0 0 0 0 * 1.10"
  by (simp add: predictRandomForest_def predictRandomForest_enhanced_def)

lemma neighbour_of_enhanced_ignores:
  "neighbour_of_enhanced temp rain fert ph humid = neighbour_of_enhanced temp rain fert' ph' humid"
  by (rule ext) (simp add: neighbour_of_enhanced_def)

lemma weight_less:
  "0 \<le> n_distance a \<Longrightarrow> n_distance a < n_distance b \<Longrightarrow> weight b < weight a"
  unfolding weight_def by (intro divide_strict_left_mono mult_pos_pos) simp_all

lemma weight_le:
  "0 \<le> n_distance a \<Longrightarrow> n_distance a \<le> n_distance b \<Longrightarrow> weight b \<le> weight a"
  unfolding weight_def by (intro divide_left_mono mult_pos_pos) simp_all

lemma weight_at_zero: "n_distance a = 0 \<Longrightarrow> weight a = 1 / 0.01"
  by (simp add: weight_def)

text \<open>
  Claim C5. For the neighbours that the simple endpoint builds from two rows and one
  query: equal distances give equal weights; the nearer neighbour has the strictly
  greater weight; and a neighbour at distance 0 has weight \<open>1 / 0.01\<close>, which no
  weight exceeds and which is strictly above the weight of every neighbour farther away.
\<close>

theorem inverse_distance_weighting:
  "let a = neighbour_of temp rain fert ph humid r1;
       b = neighbour_of temp rain fert ph humid r2
   in (n_distance a = n_distance b \<longrightarrow> weight a = weight b)
    \<and> (n_distance a < n_distance b \<longrightarrow> weight b < weight a)
    \<and> (n_distance a = 0 \<longrightarrow>
         weight a = 1 / 0.01 \<and> weight b \<le> weight a
         \<and> (0 < n_distance b \<longrightarrow> weight b < weight a))"
proof -
  define a where "a = neighbour_of temp rain fert ph humid r1"
  define b where "b = neighbour_of temp rain fert ph humid r2"
  have a: "0 \<le> n_distance a"
    unfolding a_def by (rule neighbour_of_distance_nonneg)
  have b: "0 \<le> n_distance b"
    unfolding b_def by (rule neighbour_of_distance_nonneg)
  have "n_distance a = n_distance b \<longrightarrow> weight a = weight b"
    by (simp add: weight_def)
  moreover have "n_distance a < n_distance b \<longrightarrow> weight b < weight a"
    using a weight_less by blast
  moreover have "n_distance a = 0 \<longrightarrow> weight a = 1 / 0.01"
    using weight_at_zero by blast
  moreover have "n_distance a = 0 \<longrightarrow> weight b \<le> weight a"
    using b weight_le [of a b] by simp
  moreover have "n_distance a = 0 \<longrightarrow> 0 < n_distance b \<longrightarrow> weight b < weight a"
    using weight_less [of a b] by simp
  ultimately show ?thesis
    unfolding Let_def a_def b_def by blast
qed

theorem inverse_distance_weighting_witness:
  "n_distance (neighbour_of 25 1000 100 6.5 60 (base_row 25 1000 100 6.5 60 ''Wheat'' 3000)) = 0
   \<and> n_distance (neighbour_of 25 1000 100 6.5 60 (base_row 50 1000 100 6.5 60 ''Rice'' 5000)) = 1
   \<and> n_distance (neighbour_of 25 1000 100 6.5 60 (base_row 0 1000 100 6.5 60 ''Corn'' 6000)) = 1
   \<and> weight (neighbour_of 25 1000 100 6.5 60 (base_row 25 1000 100 6.5 60 ''Wheat'' 3000)) = 100
   \<and> weight (neighbour_of 25 1000 100 6.5 60 (base_row 50 1000 100 6.5 60 ''Rice'' 5000))
     < weight (neighbour_of 25 1000 100 6.5 60 (base_row 25 1000 100 6.5 60 ''Wheat'' 3000))
   \<and> weight (neighbour_of 25 1000 100 6.5 60 (base_row 50 1000 100 6.5 60 ''Rice'' 5000))
     = weight (neighbour_of 25 1000 100 6.5 60 (base_row 0 1000 100 6.5 60 ''Corn'' 6000))"
proof -
  have d0: "n_distance (neighbour_of 25 1000 100 6.5 60 (base_row 25 1000 100 6.5 60 ''Wheat'' 3000)) = 0"
    by (simp add: neighbour_of_def base_row_def)
  have d1: "n_distance (neighbour_of 25 1000 100 6.5 60 (base_row 50 1000 100 6.5 60 ''Rice'' 5000)) = 1"
    by (simp add: neighbour_of_def base_row_def)
  have d2: "n_distance (neighbour_of 25 1000 100 6.5 60 (base_row 0 1000 100 6.5 60 ''Corn'' 6000)) = 1"
    by (simp add: neighbour_of_def base_row_def)
  show ?thesis
    using d0 d1 d2
      inverse_distance_weighting [of 25 1000 100 "6.5" 60
        "base_row 25 1000 100 6.5 60 ''Wheat'' 3000" "base_row 50 1000 100 6.5 60 ''Rice'' 5000"]
      inverse_distance_weighting [of 25 1000 100 "6.5" 60
        "base_row 50 1000 100 6.5 60 ''Rice'' 5000" "base_row 0 1000 100 6.5 60 ''Corn'' 6000"]
    by (simp add: Let_def)
qed

section \<open>The nearest-neighbour estimate\<close>







lemma nearest_enhanced_props:
  assumes "rows \<noteq> []"
  shows "k_nearest (map (neighbour_of_enhanced temp rain fert ph humid) rows) \<noteq> []"
    and "\<And>n. n \<in> set (k_nearest (map (neighbour_of_enhanced temp rain fert ph humid) rows))
          \<Longrightarrow> 0 \<le> n_distance n"
proof -
  show "k_nearest (map (neighbour_of_enhanced temp rain fert ph humid) rows) \<noteq> []"
    using assms by (intro k_nearest_nonempty) simp
  fix n assume "n \<in> set (k_nearest (map (neighbour_of_enhanced temp rain fert ph humid) rows))"
  then have "n \<in> set (map (neighbour_of_enhanced temp rain fert ph humid) rows)"
    using set_k_nearest by blast
  then show "0 \<le> n_distance n"
    using neighbour_of_enhanced_distance_nonneg by auto
qed


lemma predictRandomForest_enhanced_nonempty:
  "rows \<noteq> [] \<Longrightarrow> predictRandomForest_enhanced temp rain fert ph humid (Some rows)
     = toFixed2 (weightedYield (k_nearest (map (neighbour_of_enhanced temp rain fert ph humid) rows)))"
  by (simp add: predictRandomForest_enhanced_def)











section \<open>Agreement of the two models on finite numbers\<close>

lemma minus_Num [simp]: "Num a - Num b = Num (a - b)"
  by (simp add: minus_number_def)

lemma pow2_Num [simp]: "pow2 (Num a) = Num (a ^ 2)"
  by (simp add: pow2_def power2_eq_square)

lemma round2_js_Num [simp]: "round2_js (Num a) = Num (round2 a)"
  by (simp add: round2_js_def round2_def)

lemma Math_max_Num [simp]: "Math_max (Num a) (Num b) = Num (max a b)"
  by (simp add: max_def)

lemma NaN_plus_right [simp]: "x + NaN = NaN" for x :: number
  by (cases x) simp_all

lemma NaN_times_right [simp]: "x * NaN = NaN" for x :: number
  by (cases x) simp_all

lemma NaN_divide_right [simp]: "x / NaN = NaN" for x :: number
  by (cases x) simp_all

lemma Math_max_NaN_right [simp]: "Math_max x NaN = NaN"
  by (cases x) simp_all


lemma predictLinearRegression_enhanced_js_finite:
  "predictLinearRegression_enhanced_js (Num temp) (Num rain) (Num fert) (Num ph) (Num humid)
       (Num n) (Num p) (Num k) (Num tr_int) (Num pf_int) (Num t_sq) (Num npk_r)
     = Num (predictLinearRegression_enhanced temp rain fert ph humid n p k tr_int pf_int
         t_sq npk_r)"
  by (simp add: predictLinearRegression_enhanced_js_def yield_value_enhanced_js_def
      predictLinearRegression_enhanced_def yield_value_enhanced_def)


lemma neighbour_of_enhanced_js_finite:
  assumes "finite_row record"
  shows "neighbour_of_enhanced_js (Num temp) (Num rain) (Num fert) (Num ph) (Num humid) record
     = finite_neighbour (neighbour_of_enhanced temp rain fert ph humid record)"
proof -
  define base where "base = ((temperature record - temp) / 25) ^ 2
      + ((rainfall record - rain) / 1500) ^ 2 + ((humidity record - humid) / 50) ^ 2"
  define e1 where "e1 = (if truthy (temp_rainfall_interaction record)
      then ((ToNumber (temp_rainfall_interaction record) - temp * rain / 1000) / 10) ^ 2
      else 0)"
  define e2 where "e2 = (if truthy (npk_ratio record)
      then ((ToNumber (npk_ratio record) - ToNumber (nitrogen record)
              / (ToNumber (phosphorus record) + ToNumber (potassium record) + 1)) / 0.5) ^ 2
      else 0)"
  have b: "pow2 ((Num (temperature record) - Num temp) / Num 25)
      + pow2 ((Num (rainfall record) - Num rain) / Num 1500)
      + pow2 ((Num (humidity record) - Num humid) / Num 50) = Num base"
    by (simp add: base_def)
  have t1: "(if truthy (temp_rainfall_interaction record)
      then pow2 ((Num (ToNumber (temp_rainfall_interaction record))
                   - Num temp * Num rain / Num 1000) / Num 10)
      else Num 0) = Num e1"
    by (simp add: e1_def)
  have t2: "(if truthy (npk_ratio record)
      then pow2 ((Num (ToNumber (npk_ratio record))
                   - Num (ToNumber (nitrogen record))
                       / (Num (ToNumber (phosphorus record))
                          + Num (ToNumber (potassium record)) + Num 1))
                 / Num 0.5)
      else Num 0) = Num e2"
    using assms by (simp add: e2_def finite_row_def)
  have "0 \<le> base"
    unfolding base_def by (intro add_nonneg_nonneg zero_le_power2)
  moreover have "0 \<le> e1" by (simp add: e1_def)
  moreover have "0 \<le> e2" by (simp add: e2_def)
  ultimately have "0 \<le> base + (e1 + e2)" by simp
  then have "Math_sqrt (Num base + (Num e1 + Num e2)) = Num (sqrt (base + (e1 + e2)))"
    by simp
  then show ?thesis
    unfolding neighbour_of_enhanced_js_def neighbour_of_enhanced_def finite_neighbour_def Let_def
      b t1 t2
    by (simp add: base_def e1_def e2_def)
qed

lemma insort_js_finite:
  "insort_js (finite_neighbour a) (map finite_neighbour bs)
     = map finite_neighbour (insort_key n_distance a bs)"
  by (induction bs) (auto simp: finite_neighbour_def)

lemma sort_js_finite:
  "sort_js (map finite_neighbour ns) = map finite_neighbour (sort_key n_distance ns)"
  by (induction ns) (simp_all add: sort_js_def insort_js_finite)

lemma k_nearest_js_finite:
  "k_nearest_js (map finite_neighbour ns) = map finite_neighbour (k_nearest ns)"
  by (simp add: k_nearest_js_def k_nearest_def sort_js_finite take_map)

lemma weight_js_finite:
  "0 \<le> n_distance n \<Longrightarrow> weight_js (finite_neighbour n) = Num (weight n)"
  by (simp add: weight_js_def weight_def finite_neighbour_def)

lemma foldl_weight_js_finite:
  "(\<And>n. n \<in> set ns \<Longrightarrow> 0 \<le> n_distance n) \<Longrightarrow>
   foldl (\<lambda>sum n. sum + weight_js n) (Num a) (map finite_neighbour ns)
     = Num (foldl (\<lambda>sum n. sum + weight n) a ns)"
  by (induction ns arbitrary: a) (simp_all add: weight_js_finite)

lemma totalWeight_js_finite:
  "(\<And>n. n \<in> set ns \<Longrightarrow> 0 \<le> n_distance n) \<Longrightarrow>
   totalWeight_js (map finite_neighbour ns) = Num (totalWeight ns)"
  by (simp add: totalWeight_js_def totalWeight_def foldl_weight_js_finite)

lemma foldl_weightedYield_js_finite:
  "(\<And>n. n \<in> set ns \<Longrightarrow> 0 \<le> n_distance n) \<Longrightarrow> w \<noteq> 0 \<Longrightarrow>
   foldl (\<lambda>sum n. sum + (Num (j_yield n) * weight_js n) / Num w) (Num a)
       (map finite_neighbour ns)
     = Num (foldl (\<lambda>sum n. sum + (n_yield n * weight n) / w) a ns)"
proof (induction ns arbitrary: a)
  case Nil
  then show ?case by simp
next
  case (Cons n ns)
  have "j_yield (finite_neighbour n) = n_yield n"
    by (simp add: finite_neighbour_def)
  then show ?case
    using Cons by (simp add: weight_js_finite)
qed

lemma totalWeight_pos:
  "ns \<noteq> [] \<Longrightarrow> (\<And>n. n \<in> set ns \<Longrightarrow> 0 \<le> n_distance n) \<Longrightarrow> 0 < totalWeight ns"
  unfolding totalWeight_sum_list by (intro sum_list_pos_nonempty) (auto intro: weight_pos)

lemma weightedYield_js_finite:
  assumes "ns \<noteq> []" and "\<And>n. n \<in> set ns \<Longrightarrow> 0 \<le> n_distance n"
  shows "weightedYield_js (map finite_neighbour ns) = Num (weightedYield ns)"
proof -
  have "totalWeight ns \<noteq> 0"
    using totalWeight_pos [OF assms] by simp
  then show ?thesis
    using assms(2)
    by (simp add: weightedYield_js_def weightedYield_def totalWeight_js_finite
        foldl_weightedYield_js_finite)
qed


lemma predictRandomForest_enhanced_js_nonempty:
  "rows \<noteq> [] \<Longrightarrow> predictRandomForest_enhanced_js temp rain fert ph humid (Some rows)
     = toFixed2_js (weightedYield_js
         (k_nearest_js (map (neighbour_of_enhanced_js temp rain fert ph humid) rows)))"
  by (simp add: predictRandomForest_enhanced_js_def)


lemma predictRandomForest_enhanced_js_finite:
  assumes "\<And>r. r \<in> set rows \<Longrightarrow> finite_row r"
  shows "predictRandomForest_enhanced_js (Num temp) (Num rain) (Num fert) (Num ph) (Num humid)
       (Some rows)
     = Num (predictRandomForest_enhanced temp rain fert ph humid (Some rows))"
proof (cases "rows = []")
  case True
  then show ?thesis
    by (simp add: predictRandomForest_enhanced_js_def predictRandomForest_enhanced_def
        predictLinearRegression_enhanced_js_finite)
next
  case False
  let ?ns = "map (neighbour_of_enhanced temp rain fert ph humid) rows"
  have m: "map (neighbour_of_enhanced_js (Num temp) (Num rain) (Num fert) (Num ph) (Num humid))
        rows
      = map finite_neighbour ?ns"
    using assms by (simp add: neighbour_of_enhanced_js_finite)
  have wy: "weightedYield_js (map finite_neighbour (k_nearest ?ns))
      = Num (weightedYield (k_nearest ?ns))"
    using nearest_enhanced_props [OF False] by (intro weightedYield_js_finite)
  have "predictRandomForest_enhanced_js (Num temp) (Num rain) (Num fert) (Num ph) (Num humid)
      (Some rows) = Num (toFixed2 (weightedYield (k_nearest ?ns)))"
    unfolding predictRandomForest_enhanced_js_nonempty [OF False] m k_nearest_js_finite wy
    by simp
  with False show ?thesis
    by (simp add: predictRandomForest_enhanced_nonempty)
qed

lemma predictRandomForest_js_fallback:
  "predictRandomForest_js temp rain fert ph humid None
     = predictLinearRegression_js temp rain fert ph humid * Num 1.15"
  "predictRandomForest_js temp rain fert ph humid (Some [])
     = predictLinearRegression_js temp rain fert ph humid * Num 1.15"
  "predictRandomForest_enhanced_js temp rain fert ph humid None
     = predictLinearRegression_enhanced_js temp rain fert ph humid
         (Num 0) (Num 0) (Num 0) (Num 0) (Num 0) (Num 0) (Num 0) * Num 1.10"
  "predictRandomForest_enhanced_js temp rain fert ph humid (Some [])
     = predictLinearRegression_enhanced_js temp rain fert ph humid
         (Num 0) (Num 0) (Num 0) (Num 0) (Num 0) (Num 0) (Num 0) * Num 1.10"
  by (simp_all add: predictRandomForest_js_def predictRandomForest_enhanced_js_def)

lemma Math_min_Num [simp]: "Math_min (Num a) (Num b) = Num (min a b)"
  by (simp add: min_def)

lemma determineBestCrop_js_finite:
  "determineBestCrop_js (Num temp) (Num rain) fert ph humid
     = determineBestCrop temp rain fert' ph' humid'"
  by (simp add: determineBestCrop_js_def determineBestCrop_def)

lemma rfYield_enhanced_js_finite:
  assumes "\<And>r. r \<in> set rows \<Longrightarrow> finite_row r"
  shows "rfYield_enhanced_js
       \<lparr>j_temperature = Num (temperature request), j_rainfall = Num (rainfall request),
        j_fertilizer = Num (fertilizer request), j_soil_ph = Num (soil_ph request),
        j_humidity = Num (humidity request),
        j_nitrogen = n, j_phosphorus = p, j_potassium = k\<rparr> (Some rows)
     = Num (rfYield_enhanced request (Some rows))"
  using assms
  by (simp add: rfYield_enhanced_js_def rfYield_enhanced_def Let_def
      predictRandomForest_enhanced_js_finite)

section \<open>The linear estimator on all numbers\<close>





lemma Num_le_Num [simp]: "Num a \<le> Num b \<longleftrightarrow> a \<le> b"
  by (auto simp: less_eq_number_def)

lemma not_le_NaN [simp]: "\<not> x \<le> NaN" for x :: number
  by (cases x) (simp_all add: less_eq_number_def)







section \<open>Independence of fertilizer and soil pH\<close>

theorem predictRandomForest_enhanced_fallback_depends_on_fertilizer:
  "predictRandomForest_enhanced 20 500 0 0 50 (Some [])
     \<noteq> predictRandomForest_enhanced 20 500 100 0 50 (Some [])
   \<and> predictRandomForest_enhanced 20 500 0 0 50 (Some [])
     \<noteq> predictRandomForest_enhanced 20 500 0 7 50 (Some [])
   \<and> predictRandomForest_enhanced 20 500 0 0 50 None
     \<noteq> predictRandomForest_enhanced 20 500 100 0 50 None
   \<and> predictRandomForest_enhanced 20 500 0 0 50 None
     \<noteq> predictRandomForest_enhanced 20 500 0 7 50 None
   \<and> predictRandomForest_enhanced_js (Num 20) (Num 500) (Num 0) (Num 0) (Num 50) (Some [])
     \<noteq> predictRandomForest_enhanced_js (Num 20) (Num 500) (Num 100) (Num 0) (Num 50) (Some [])"
  by (simp add: predictRandomForest_enhanced_def predictLinearRegression_enhanced_def
      yield_value_enhanced_def toFixed2_def predictRandomForest_enhanced_js_def
      predictLinearRegression_enhanced_js_finite)

lemma neighbour_of_enhanced_js_ignores:
  "neighbour_of_enhanced_js temp rain fert ph humid
     = neighbour_of_enhanced_js temp rain fert' ph' humid"
  by (rule ext) (simp add: neighbour_of_enhanced_js_def)

text \<open>
  Claim C9, as amended. For a non-empty training set the estimate of the enhanced
  endpoint does not depend on the fertilizer and soil pH of the query, whatever numbers
  they are, \<open>NaN\<close> included, and the handler's \<open>rfYield\<close> is the same for two
  requests that agree on temperature, rainfall and humidity, whatever their fertilizer,
  soil pH and NPK levels: the distance of a row is the same function of the row for any
  fertilizer and soil pH of the query.
  With an empty or absent training set the estimate is the fallback, which changes with
  the fertilizer and with the soil pH.
\<close>

theorem predictRandomForest_enhanced_independent:
  "rows \<noteq> [] \<longrightarrow>
     predictRandomForest_enhanced temp rain fert ph humid (Some rows)
       = predictRandomForest_enhanced temp rain fert' ph' humid (Some rows)
     \<and> (temperature request = temperature request' \<and> rainfall request = rainfall request'
          \<and> humidity request = humidity request'
        \<longrightarrow> rfYield_enhanced request (Some rows) = rfYield_enhanced request' (Some rows))
     \<and> predictRandomForest_enhanced_js jtemp jrain jfert jph jhumid (Some rows)
       = predictRandomForest_enhanced_js jtemp jrain jfert' jph' jhumid (Some rows)
     \<and> neighbour_of_enhanced_js jtemp jrain jfert jph jhumid
       = neighbour_of_enhanced_js jtemp jrain jfert' jph' jhumid
     \<and> (j_temperature jrequest = j_temperature jrequest'
          \<and> j_rainfall jrequest = j_rainfall jrequest'
          \<and> j_humidity jrequest = j_humidity jrequest'
        \<longrightarrow> rfYield_enhanced_js jrequest (Some rows) = rfYield_enhanced_js jrequest' (Some rows))"
  by (simp add: predictRandomForest_enhanced_def rfYield_enhanced_def Let_def
      predictRandomForest_enhanced_js_def rfYield_enhanced_js_def
      neighbour_of_enhanced_ignores [of _ _ fert ph _ fert' ph']
      neighbour_of_enhanced_ignores [of _ _ "fertilizer request" "soil_ph request" _
        "fertilizer request'" "soil_ph request'"]
      neighbour_of_enhanced_js_ignores [of _ _ jfert jph _ jfert' jph']
      neighbour_of_enhanced_js_ignores [of _ _ "j_fertilizer jrequest" "j_soil_ph jrequest" _
        "j_fertilizer jrequest'" "j_soil_ph jrequest'"])

lemma two_rows_estimate_enhanced:
  "predictRandomForest_enhanced 25 1000 fert ph 60
     (Some [base_row 50 1000 100 6.5 60 ''Rice'' 5000, base_row 25 1000 100 6.5 60 ''Wheat'' 3000])
   = 3019.61"
  by (simp add: predictRandomForest_enhanced_def k_nearest_def neighbour_of_enhanced_def
      base_row_def truthy_def weightedYield_def totalWeight_def weight_def toFixed2_def)

lemma two_rows_estimate_enhanced_other_query:
  "predictRandomForest_enhanced 50 1000 fert ph 60
     (Some [base_row 50 1000 100 6.5 60 ''Rice'' 5000, base_row 25 1000 100 6.5 60 ''Wheat'' 3000])
   = 4980.39"
  by (simp add: predictRandomForest_enhanced_def k_nearest_def neighbour_of_enhanced_def
      base_row_def truthy_def weightedYield_def totalWeight_def weight_def toFixed2_def)

theorem predictRandomForest_enhanced_independent_witness:
  "[base_row 50 1000 100 6.5 60 ''Rice'' 5000, base_row 25 1000 100 6.5 60 ''Wheat'' 3000] \<noteq> []
   \<and> predictRandomForest_enhanced 25 1000 0 0 60
       (Some [base_row 50 1000 100 6.5 60 ''Rice'' 5000,
              base_row 25 1000 100 6.5 60 ''Wheat'' 3000]) = 3019.61
   \<and> predictRandomForest_enhanced 25 1000 100 7 60
       (Some [base_row 50 1000 100 6.5 60 ''Rice'' 5000,
              base_row 25 1000 100 6.5 60 ''Wheat'' 3000]) = 3019.61
   \<and> predictRandomForest_enhanced 50 1000 0 0 60
       (Some [base_row 50 1000 100 6.5 60 ''Rice'' 5000,
              base_row 25 1000 100 6.5 60 ''Wheat'' 3000]) = 4980.39
   \<and> rfYield_enhanced
        \<lparr>temperature = 25, rainfall = 1000, fertilizer = 0, soil_ph = 0, humidity = 60,
         nitrogen = None, phosphorus = None, potassium = None\<rparr>
        (Some [base_row 50 1000 100 6.5 60 ''Rice'' 5000,
               base_row 25 1000 100 6.5 60 ''Wheat'' 3000])
     = rfYield_enhanced
        \<lparr>temperature = 25, rainfall = 1000, fertilizer = 100, soil_ph = 7, humidity = 60,
         nitrogen = Some 80, phosphorus = Some 40, potassium = Some 60\<rparr>
        (Some [base_row 50 1000 100 6.5 60 ''Rice'' 5000,
               base_row 25 1000 100 6.5 60 ''Wheat'' 3000])
   \<and> predictRandomForest_enhanced_js (Num 25) (Num 1000) NaN (Num 0) (Num 60)
       (Some [base_row 50 1000 100 6.5 60 ''Rice'' 5000,
              base_row 25 1000 100 6.5 60 ''Wheat'' 3000])
     = predictRandomForest_enhanced_js (Num 25) (Num 1000) (Num 100) (Num 7) (Num 60)
       (Some [base_row 50 1000 100 6.5 60 ''Rice'' 5000,
              base_row 25 1000 100 6.5 60 ''Wheat'' 3000])
   \<and> rfYield_enhanced_js
        \<lparr>j_temperature = Num 25, j_rainfall = Num 1000, j_fertilizer = NaN,
         j_soil_ph = Num 0, j_humidity = Num 60,
         j_nitrogen = NaN, j_phosphorus = NaN, j_potassium = NaN\<rparr>
        (Some [base_row 50 1000 100 6.5 60 ''Rice'' 5000,
               base_row 25 1000 100 6.5 60 ''Wheat'' 3000])
     = rfYield_enhanced_js
        \<lparr>j_temperature = Num 25, j_rainfall = Num 1000, j_fertilizer = Num 100,
         j_soil_ph = Num 7, j_humidity = Num 60,
         j_nitrogen = Num 80, j_phosphorus = Num 40, j_potassium = Num 60\<rparr>
        (Some [base_row 50 1000 100 6.5 60 ''Rice'' 5000,
               base_row 25 1000 100 6.5 60 ''Wheat'' 3000])"
  using predictRandomForest_enhanced_independent
    [of "[base_row 50 1000 100 6.5 60 ''Rice'' 5000, base_row 25 1000 100 6.5 60 ''Wheat'' 3000]"
      25 1000 0 0 60 100 7
      "\<lparr>temperature = 25, rainfall = 1000, fertilizer = 0, soil_ph = 0, humidity = 60,
         nitrogen = None, phosphorus = None, potassium = None\<rparr>"
      "\<lparr>temperature = 25, rainfall = 1000, fertilizer = 100, soil_ph = 7, humidity = 60,
         nitrogen = Some 80, phosphorus = Some 40, potassium = Some 60\<rparr>"
      "Num 25" "Num 1000" NaN "Num 0" "Num 60" "Num 100" "Num 7"
      "\<lparr>j_temperature = Num 25, j_rainfall = Num 1000, j_fertilizer = NaN,
         j_soil_ph = Num 0, j_humidity = Num 60,
         j_nitrogen = NaN, j_phosphorus = NaN, j_potassium = NaN\<rparr>"
      "\<lparr>j_temperature = Num 25, j_rainfall = Num 1000, j_fertilizer = Num 100,
         j_soil_ph = Num 7, j_humidity = Num 60,
         j_nitrogen = Num 80, j_phosphorus = Num 40, j_potassium = Num 60\<rparr>"]
    two_rows_estimate_enhanced [of 0 0] two_rows_estimate_enhanced [of 100 7]
    two_rows_estimate_enhanced_other_query [of 0 0]
  by simp

section \<open>The estimate as a rounded weighted average\<close>











section \<open>The generated yields\<close>

lemma cropTypes_index: "0 \<le> u \<Longrightarrow> u < 1 \<Longrightarrow> nat \<lfloor>u * real (length cropTypes)\<rfloor> < 7"
proof -
  assume "0 \<le> u" "u < 1"
  then have "\<lfloor>u * 7\<rfloor> < 7" by linarith
  then have "nat \<lfloor>u * 7\<rfloor> < 7" by linarith
  then show ?thesis by (simp add: cropTypes_def)
qed

lemma tempFactor_nonneg:
  "0 \<le> u \<Longrightarrow> u < 1 \<Longrightarrow> 0 \<le> 1 - \<bar>15 + u * 25 - 25\<bar> / 40" for u :: real
proof -
  assume "0 \<le> u" "u < 1"
  then have "\<bar>15 + u * 25 - 25\<bar> \<le> 40" by (simp add: abs_le_iff)
  then show ?thesis by simp
qed

lemma phFactor_nonneg:
  "0 \<le> u \<Longrightarrow> u < 1 \<Longrightarrow> 0 \<le> 1 - \<bar>5.5 + u * 2.5 - 6.8\<bar> / 3" for u :: real
proof -
  assume "0 \<le> u" "u < 1"
  then have "\<bar>5.5 + u * 2.5 - 6.8\<bar> \<le> 3" by (simp add: abs_le_iff)
  then show ?thesis by simp
qed

lemma baseFactor_nonneg:
  "0 \<le> a \<Longrightarrow> 0 \<le> b \<Longrightarrow> 0 \<le> c \<Longrightarrow> 0 \<le> d \<Longrightarrow> 0 \<le> e \<Longrightarrow> 0 \<le> (a + b + c + d + e) / 5"
  for a :: real
  by simp

lemma capped_factor_nonneg: "0 \<le> u \<Longrightarrow> 0 \<le> a \<Longrightarrow> 0 \<le> b \<Longrightarrow> 0 < d \<Longrightarrow> 0 \<le> c
    \<Longrightarrow> 0 \<le> min ((a + u * b) / d) c" for u :: real
  by simp

lemma cropTypes_bounds:
  "i < 7 \<Longrightarrow> 0 \<le> minYield (cropTypes ! i) \<and> minYield (cropTypes ! i) \<le> maxYield (cropTypes ! i)"
proof -
  assume "i < 7"
  then consider "i = 0" | "i = 1" | "i = 2" | "i = 3" | "i = 4" | "i = 5" | "i = 6"
    by linarith
  then show ?thesis
    by cases (simp_all add: cropTypes_def)
qed

lemma round2_nonneg: "0 \<le> x \<Longrightarrow> 0 \<le> round2 x"
proof -
  assume "0 \<le> x"
  then have "0 \<le> \<lfloor>x * 100 + 1 / 2\<rfloor>" by simp
  then show ?thesis by (simp add: round2_def Math_round_def)
qed

lemma yieldValue_nonneg:
  fixes lo hi b v :: real
  assumes "0 \<le> lo" "lo \<le> hi" "0 \<le> b" "0 \<le> v"
  shows "0 \<le> lo + (hi - lo) * b * v"
proof -
  have "0 \<le> (hi - lo) * b * v" using assms by simp
  with assms(1) show ?thesis by linarith
qed

lemma generate_record_simple_yield:
  assumes "in_unit_interval random"
  shows "0 \<le> yield (generate_record_simple random i)"
proof -
  have r: "\<And>j. 0 \<le> random j" "\<And>j. random j < 1"
    using assms by (simp_all add: in_unit_interval_def)
  define c where "c = cropTypes ! nat \<lfloor>random (7 * i) * real (length cropTypes)\<rfloor>"
  have c: "0 \<le> minYield c" "minYield c \<le> maxYield c"
    unfolding c_def using cropTypes_bounds [OF cropTypes_index [OF r(1) r(2)]] by simp_all
  define b where "b = (1 - \<bar>15 + random (7 * i + 1) * 25 - 25\<bar> / 40
      + min ((300 + random (7 * i + 2) * 1500) / 1000) 1.5
      + min ((50 + random (7 * i + 3) * 250) / 200) 1.3
      + (1 - \<bar>5.5 + random (7 * i + 4) * 2.5 - 6.8\<bar> / 3)
      + min ((40 + random (7 * i + 5) * 50) / 70) 1.2) / 5"
  have "0 \<le> 1 - \<bar>15 + random (7 * i + 1) * 25 - 25\<bar> / 40"
    by (rule tempFactor_nonneg [OF r])
  moreover have "0 \<le> min ((300 + random (7 * i + 2) * 1500) / 1000) 1.5"
    by (rule capped_factor_nonneg [OF r(1)]) simp_all
  moreover have "0 \<le> min ((50 + random (7 * i + 3) * 250) / 200) 1.3"
    by (rule capped_factor_nonneg [OF r(1)]) simp_all
  moreover have "0 \<le> 1 - \<bar>5.5 + random (7 * i + 4) * 2.5 - 6.8\<bar> / 3"
    by (rule phFactor_nonneg [OF r])
  moreover have "0 \<le> min ((40 + random (7 * i + 5) * 50) / 70) 1.2"
    by (rule capped_factor_nonneg [OF r(1)]) simp_all
  ultimately have "0 \<le> b"
    unfolding b_def by (rule baseFactor_nonneg)
  moreover have "0 \<le> 0.8 + random (7 * i + 6) * 0.4"
    using r(1) [of "7 * i + 6"] by simp
  ultimately have "0 \<le> minYield c + (maxYield c - minYield c) * b
      * (0.8 + random (7 * i + 6) * 0.4)"
    using c by (intro yieldValue_nonneg)
  then have "0 \<le> round2 (minYield c + (maxYield c - minYield c) * b
      * (0.8 + random (7 * i + 6) * 0.4))"
    by (rule round2_nonneg)
  then show ?thesis
    by (simp add: generate_record_simple_def Let_def c_def b_def)
qed

lemma generate_record_yield: "0 \<le> yield (generate_record random i)"
  by (simp add: generate_record_def Let_def)

text \<open>
  Claim C6. Whatever values in \<open>[0, 1)\<close> the calls of \<open>Math.random()\<close> return, every
  record that a generator produces has a yield of at least 0: in the generator with
  feature engineering by the final \<open>Math.max(0, \<dots>)\<close>, in the simple one because every
  factor of the yield formula is non-negative on these ranges.
\<close>

theorem generated_yield_nonnegative:
  assumes "in_unit_interval random"
  shows "(\<forall>r \<in> set (generate_records random). 0 \<le> yield r)
       \<and> (\<forall>r \<in> set (generate_records_simple random). 0 \<le> yield r)"
  using generate_record_simple_yield [OF assms] generate_record_yield
  by (auto simp: generate_records_def generate_records_simple_def)

theorem generated_yield_nonnegative_witness:
  "in_unit_interval (\<lambda>j. 0)
   \<and> generate_record (\<lambda>j. 0) 0 \<in> set (generate_records (\<lambda>j. 0))
   \<and> 0 \<le> yield (generate_record (\<lambda>j. 0) 0)
   \<and> generate_record_simple (\<lambda>j. 0) 0 \<in> set (generate_records_simple (\<lambda>j. 0))
   \<and> 0 \<le> yield (generate_record_simple (\<lambda>j. 0) 0)
   \<and> yield (generate_record_simple (\<lambda>j. 0) 0) = 3170.29"
proof -
  have u: "in_unit_interval (\<lambda>j. 0)"
    by (simp add: in_unit_interval_def)
  have m: "generate_record (\<lambda>j. 0) 0 \<in> set (generate_records (\<lambda>j. 0))"
    by (simp add: generate_records_def targetRecords_def)
  have ms: "generate_record_simple (\<lambda>j. 0) 0 \<in> set (generate_records_simple (\<lambda>j. 0))"
    by (simp add: generate_records_simple_def targetRecords_def)
  have v: "yield (generate_record_simple (\<lambda>j. 0) 0) = 3170.29"
    by (simp add: generate_record_simple_def cropTypes_def round2_def Math_round_def)
  from generated_yield_nonnegative [OF u] m ms
  have "0 \<le> yield (generate_record (\<lambda>j. 0) 0)"
    and "0 \<le> yield (generate_record_simple (\<lambda>j. 0) 0)"
    by blast+
  with u m ms v show ?thesis by simp
qed

section \<open>The request handlers and their failures\<close>

lemma predict_handler_failure:
  "predict_raised w = Some e \<Longrightarrow> req_method \<noteq> ''OPTIONS''
    \<Longrightarrow> snd (predict_handler req_method w) = catch_response e"
  by (auto simp: predict_raised_def predict_handler_def predict_try_def reported_def rejected_def
      Let_def split: option.splits sum.splits)

lemma predict_handler_success:
  "predict_raised w = None \<Longrightarrow> status (snd (predict_handler req_method w)) = 200"
  by (auto simp: predict_raised_def predict_handler_def predict_try_def reported_def rejected_def
      Let_def split: option.splits sum.splits)

lemma predict_handler_distinct: "distinct (fst (predict_handler req_method w))"
  by (auto simp: predict_handler_def predict_try_def Let_def split: option.splits sum.splits)

lemma first_failure_append:
  "first_failure (xs @ ys)
     = (case first_failure xs of Some e \<Rightarrow> Some e | None \<Rightarrow> first_failure ys)"
  by (induction xs rule: first_failure.induct) simp_all

lemma set_attempted: "set (attempted f bs) \<subseteq> set bs"
  by (induction bs) (auto split: option.splits)

lemma distinct_attempted: "distinct bs \<Longrightarrow> distinct (attempted f bs)"
proof (induction bs)
  case Nil
  then show ?case by simp
next
  case (Cons b bs)
  then show ?case using set_attempted [of f bs] by (auto split: option.splits)
qed

lemma insert_batches_first_failure:
  assumes len: "length records = nb * batchSize"
  shows "b \<le> nb \<Longrightarrow> insert_batches ins records (b * batchSize) calls
    = (calls @ map InsertBatch (attempted (\<lambda>j. reported (ins j)) [b..<nb]),
       first_failure (map (\<lambda>j. reported (ins j)) [b..<nb]))"
proof (induction "nb - b" arbitrary: b calls)
  case 0
  then have "b = nb" by simp
  then show ?case
    by (subst insert_batches.simps) (simp add: len)
next
  case (Suc d)
  then have lt: "b < nb" by simp
  then have i: "b * batchSize < length records"
    by (simp add: len batchSize_def)
  have dv: "b * batchSize div batchSize = b"
    by (simp add: batchSize_def)
  have up: "[b..<nb] = b # [Suc b..<nb]"
    using lt by (simp add: upt_conv_Cons)
  have ih: "insert_batches ins records (Suc b * batchSize) cs
      = (cs @ map InsertBatch (attempted (\<lambda>j. reported (ins j)) [Suc b..<nb]),
         first_failure (map (\<lambda>j. reported (ins j)) [Suc b..<nb]))" for cs
    using Suc.hyps(1) [of "Suc b" cs] Suc.hyps(2) lt by simp
  have nx: "b * batchSize + batchSize = Suc b * batchSize"
    by simp
  show ?case
    by (subst insert_batches.simps)
      (simp add: i dv up ih nx Let_def reported_def split: sum.splits option.splits del: mult_Suc)
qed

lemma generate_records_length: "length (generate_records random) = 5 * batchSize"
  by (simp add: generate_records_def targetRecords_def batchSize_def)

lemma batch_count: "targetRecords div batchSize = 5"
  by (simp add: targetRecords_def batchSize_def)

lemma insert_all_batches:
  "insert_batches ins (generate_records random) 0 calls
    = (calls @ map InsertBatch (attempted (\<lambda>j. reported (ins j)) [0..<5]),
       first_failure (map (\<lambda>j. reported (ins j)) [0..<5]))"
  using insert_batches_first_failure [OF generate_records_length, of 0 ins random calls]
  by simp

lemma generate_try_calls:
  "fst (generate_try w) =
     (case g_createClient w of
        Some e \<Rightarrow> [CreateClient]
      | None \<Rightarrow>
          CreateClient # map InsertBatch (attempted (\<lambda>j. reported (g_insert_batch w j)) [0..<5])
            @ (case first_failure (map (\<lambda>j. reported (g_insert_batch w j)) [0..<5]) of
                 Some e \<Rightarrow> [] | None \<Rightarrow> [InsertMetrics]))"
  by (simp add: generate_try_def insert_all_batches Let_def split: option.splits sum.splits)

lemma generate_try_result:
  "snd (generate_try w) = Inl e \<longleftrightarrow> generate_raised w = Some e"
  by (simp add: generate_try_def generate_raised_def insert_all_batches batch_count Let_def
      first_failure_append rejected_def split: option.splits sum.splits)

lemma generate_try_success:
  "generate_raised w = None \<Longrightarrow> \<exists>json. snd (generate_try w) = Inr json"
  using generate_try_result [of w] by (cases "snd (generate_try w)") auto

lemma generate_handler_failure:
  "generate_raised w = Some e \<Longrightarrow> req_method \<noteq> ''OPTIONS''
    \<Longrightarrow> snd (generate_handler req_method w) = catch_response e"
  using generate_try_result [of w e]
  by (cases "generate_try w") (auto simp: generate_handler_def)

lemma generate_handler_success:
  "generate_raised w = None \<Longrightarrow> status (snd (generate_handler req_method w)) = 200"
  using generate_try_success [of w]
  by (cases "generate_try w") (auto simp: generate_handler_def)

lemma generate_handler_calls:
  "fst (generate_handler req_method w) = (if req_method = ''OPTIONS'' then [] else fst (generate_try w))"
  by (cases "generate_try w") (auto simp: generate_handler_def split: sum.splits)

lemma generate_handler_distinct: "distinct (fst (generate_handler req_method w))"
proof -
  have d: "distinct (attempted f [0..<5])" for f
    by (rule distinct_attempted) simp
  have "distinct (fst (generate_try w))"
    unfolding generate_try_calls
    by (auto simp: distinct_map d inj_on_def split: option.splits)
  then show ?thesis by (simp add: generate_handler_calls)
qed

lemma reported_None_rejected: "reported outcome = None \<Longrightarrow> rejected outcome = None"
  by (cases outcome) (simp_all add: reported_def rejected_def)

lemma first_failure_None: "first_failure steps = None \<longleftrightarrow> (\<forall>s \<in> set steps. s = None)"
  by (induction steps rule: first_failure.induct) simp_all

lemma predict_no_failure_no_raise: "predict_failure w = None \<Longrightarrow> predict_raised w = None"
  by (simp add: predict_failure_def predict_raised_def first_failure_None
      reported_None_rejected)

lemma generate_no_failure_no_raise:
  "generate_failure w = None \<Longrightarrow> generate_raised w = None"
  by (simp add: generate_failure_def generate_raised_def first_failure_None
      reported_None_rejected)

lemma predict_try_result: "snd (predict_try w) = Inl e \<longleftrightarrow> predict_raised w = Some e"
  by (auto simp: predict_raised_def predict_try_def reported_def rejected_def
      Let_def split: option.splits sum.splits)

text \<open>
  Claim C8, as amended. In the simple prediction endpoint and in the generation endpoint
  the \<open>try\<close> block throws exactly when a call throws or rejects, or a database call
  whose \<open>error\<close> the handler reads resolves with one. Every failure so raised is caught
  at the outer level and answered with status 500; the body carries the message of the
  thrown value when that value is an instance of \<open>Error\<close>, and the fixed text
  \<open>Unknown error\<close> otherwise. A run in which no call fails, and an \<open>OPTIONS\<close> request,
  are answered with status 200; no other status occurs; and no call to a collaborator
  is made twice, so nothing is retried.
\<close>

theorem handlers_catch_failures:
  "(req_method \<noteq> ''OPTIONS'' \<longrightarrow>
      (snd (predict_try w) = Inl e \<longleftrightarrow> predict_raised w = Some e)
      \<and> (predict_raised w = Some e
          \<longrightarrow> snd (predict_handler req_method w)
            = \<lparr>status = 500,
               body = ErrorJson (if instanceof_Error e then message e else ''Unknown error'')\<rparr>)
      \<and> (predict_failure w = None \<longrightarrow> status (snd (predict_handler req_method w)) = 200)
      \<and> (snd (generate_try g) = Inl e \<longleftrightarrow> generate_raised g = Some e)
      \<and> (generate_raised g = Some e
          \<longrightarrow> snd (generate_handler req_method g)
            = \<lparr>status = 500,
               body = ErrorJson (if instanceof_Error e then message e else ''Unknown error'')\<rparr>)
      \<and> (generate_failure g = None
          \<longrightarrow> status (snd (generate_handler req_method g)) = 200))
   \<and> (req_method = ''OPTIONS'' \<longrightarrow>
      predict_handler req_method w = ([], \<lparr>status = 200, body = NoBody\<rparr>)
      \<and> generate_handler req_method g = ([], \<lparr>status = 200, body = NoBody\<rparr>))
   \<and> (status (snd (predict_handler req_method w)) = 200
        \<or> status (snd (predict_handler req_method w)) = 500)
   \<and> (status (snd (generate_handler req_method g)) = 200
        \<or> status (snd (generate_handler req_method g)) = 500)
   \<and> distinct (fst (predict_handler req_method w))
   \<and> distinct (fst (generate_handler req_method g))"
proof -
  have p: "req_method \<noteq> ''OPTIONS'' \<Longrightarrow> predict_raised w = Some e
      \<Longrightarrow> snd (predict_handler req_method w)
            = \<lparr>status = 500,
               body = ErrorJson (if instanceof_Error e then message e else ''Unknown error'')\<rparr>"
    using predict_handler_failure [of w e req_method]
    by (simp add: catch_response_def)
  have q: "req_method \<noteq> ''OPTIONS'' \<Longrightarrow> generate_raised g = Some e
      \<Longrightarrow> snd (generate_handler req_method g)
            = \<lparr>status = 500,
               body = ErrorJson (if instanceof_Error e then message e else ''Unknown error'')\<rparr>"
    using generate_handler_failure [of g e req_method]
    by (simp add: catch_response_def)
  have ps: "predict_failure w = None \<Longrightarrow> status (snd (predict_handler req_method w)) = 200"
    using predict_no_failure_no_raise predict_handler_success by blast
  have qs: "generate_failure g = None
      \<Longrightarrow> status (snd (generate_handler req_method g)) = 200"
    using generate_no_failure_no_raise generate_handler_success by blast
  have o: "req_method = ''OPTIONS'' \<Longrightarrow>
      predict_handler req_method w = ([], \<lparr>status = 200, body = NoBody\<rparr>)
      \<and> generate_handler req_method g = ([], \<lparr>status = 200, body = NoBody\<rparr>)"
    by (simp add: predict_handler_def generate_handler_def)
  have sp: "status (snd (predict_handler req_method w)) = 200
        \<or> status (snd (predict_handler req_method w)) = 500"
  proof (cases "req_method = ''OPTIONS''")
    case True
    then show ?thesis using o by simp
  next
    case False
    show ?thesis
    proof (cases "predict_raised w")
      case None
      then show ?thesis using predict_handler_success by simp
    next
      case (Some x)
      then show ?thesis
        using predict_handler_failure [OF Some False] by (simp add: catch_response_def)
    qed
  qed
  have sg: "status (snd (generate_handler req_method g)) = 200
        \<or> status (snd (generate_handler req_method g)) = 500"
  proof (cases "req_method = ''OPTIONS''")
    case True
    then show ?thesis using o by simp
  next
    case False
    show ?thesis
    proof (cases "generate_raised g")
      case None
      then show ?thesis using generate_handler_success by simp
    next
      case (Some x)
      then show ?thesis
        using generate_handler_failure [OF Some False] by (simp add: catch_response_def)
    qed
  qed
  show ?thesis
    using p q ps qs o sp sg predict_handler_distinct [of req_method w]
      generate_handler_distinct [of req_method g] predict_try_result [of w e]
      generate_try_result [of g e]
    by blast
qed

lemma generate_raised_metrics_only:
  "generate_raised
      \<lparr>g_createClient = None, g_random = (\<lambda>j. 0),
       g_insert_batch = (\<lambda>b. Inr \<lparr>data = None, error = None\<rparr>),
       g_insert_metrics = m\<rparr>
   = rejected m"
  by (cases "rejected m")
    (simp_all add: generate_raised_def batch_count reported_def upt_conv_Cons)

theorem failures_not_answered_as_claimed:
  "snd (predict_handler ''POST''
      \<lparr>p_createClient = None,
       p_req_json = Inr \<lparr>j_temperature = Num 25, j_rainfall = Num 1000, j_fertilizer = Num 100,
                         j_soil_ph = Num 6.5, j_humidity = Num 60\<rparr>,
       p_select_training =
         Inr \<lparr>data = None,
              error = Some \<lparr>instanceof_Error = False, message = ''permission denied''\<rparr>\<rparr>,
       p_select_metrics = Inr \<lparr>data = None, error = None\<rparr>,
       p_insert_prediction = Inr \<lparr>data = None, error = None\<rparr>\<rparr>)
   = \<lparr>status = 500, body = ErrorJson ''Unknown error''\<rparr>
   \<and> ErrorJson ''Unknown error'' \<noteq> (ErrorJson ''permission denied'' :: prediction body)
   \<and> status (snd (generate_handler ''POST''
      \<lparr>g_createClient = None, g_random = (\<lambda>j. 0),
       g_insert_batch = (\<lambda>b. Inr \<lparr>data = None, error = None\<rparr>),
       g_insert_metrics =
         Inr \<lparr>data = None,
              error = Some \<lparr>instanceof_Error = True, message = ''insert failed''\<rparr>\<rparr>\<rparr>)) = 200"
proof -
  have "generate_raised
      \<lparr>g_createClient = None, g_random = (\<lambda>j. 0),
       g_insert_batch = (\<lambda>b. Inr \<lparr>data = None, error = None\<rparr>),
       g_insert_metrics =
         Inr \<lparr>data = None,
              error = Some \<lparr>instanceof_Error = True, message = ''insert failed''\<rparr>\<rparr>\<rparr> = None"
    unfolding generate_raised_metrics_only by (simp add: rejected_def)
  then show ?thesis
    using generate_handler_success
    by (simp add: predict_handler_def predict_try_def catch_response_def)
qed

theorem handlers_catch_failures_witness:
  "''POST'' \<noteq> ''OPTIONS''
   \<and> predict_raised
        \<lparr>p_createClient = None,
         p_req_json = Inl \<lparr>instanceof_Error = True, message = ''Unexpected end of JSON input''\<rparr>,
         p_select_training = Inr \<lparr>data = Some [], error = None\<rparr>,
         p_select_metrics = Inr \<lparr>data = None, error = None\<rparr>,
         p_insert_prediction = Inr \<lparr>data = None, error = None\<rparr>\<rparr>
       = Some \<lparr>instanceof_Error = True, message = ''Unexpected end of JSON input''\<rparr>
   \<and> snd (predict_handler ''POST''
        \<lparr>p_createClient = None,
         p_req_json = Inl \<lparr>instanceof_Error = True, message = ''Unexpected end of JSON input''\<rparr>,
         p_select_training = Inr \<lparr>data = Some [], error = None\<rparr>,
         p_select_metrics = Inr \<lparr>data = None, error = None\<rparr>,
         p_insert_prediction = Inr \<lparr>data = None, error = None\<rparr>\<rparr>)
       = \<lparr>status = 500, body = ErrorJson ''Unexpected end of JSON input''\<rparr>
   \<and> generate_raised
        \<lparr>g_createClient = None, g_random = (\<lambda>j. 0),
         g_insert_batch = (\<lambda>b. if b = 1
            then Inr \<lparr>data = None,
                      error = Some \<lparr>instanceof_Error = True,
                                    message = ''Unexpected end of JSON input''\<rparr>\<rparr>
            else Inr \<lparr>data = None, error = None\<rparr>),
         g_insert_metrics = Inr \<lparr>data = None, error = None\<rparr>\<rparr>
       = Some \<lparr>instanceof_Error = True, message = ''Unexpected end of JSON input''\<rparr>
   \<and> snd (generate_handler ''POST''
        \<lparr>g_createClient = None, g_random = (\<lambda>j. 0),
         g_insert_batch = (\<lambda>b. if b = 1
            then Inr \<lparr>data = None,
                      error = Some \<lparr>instanceof_Error = True,
                                    message = ''Unexpected end of JSON input''\<rparr>\<rparr>
            else Inr \<lparr>data = None, error = None\<rparr>),
         g_insert_metrics = Inr \<lparr>data = None, error = None\<rparr>\<rparr>)
       = \<lparr>status = 500, body = ErrorJson ''Unexpected end of JSON input''\<rparr>
   \<and> predict_failure
        \<lparr>p_createClient = None,
         p_req_json = Inr \<lparr>j_temperature = Num 25, j_rainfall = Num 1000, j_fertilizer = Num 100,
                           j_soil_ph = Num 6.5, j_humidity = Num 60\<rparr>,
         p_select_training = Inr \<lparr>data = Some [], error = None\<rparr>,
         p_select_metrics = Inr \<lparr>data = None, error = None\<rparr>,
         p_insert_prediction = Inr \<lparr>data = None, error = None\<rparr>\<rparr> = None
   \<and> status (snd (predict_handler ''POST''
        \<lparr>p_createClient = None,
         p_req_json = Inr \<lparr>j_temperature = Num 25, j_rainfall = Num 1000, j_fertilizer = Num 100,
                           j_soil_ph = Num 6.5, j_humidity = Num 60\<rparr>,
         p_select_training = Inr \<lparr>data = Some [], error = None\<rparr>,
         p_select_metrics = Inr \<lparr>data = None, error = None\<rparr>,
         p_insert_prediction = Inr \<lparr>data = None, error = None\<rparr>\<rparr>)) = 200
   \<and> generate_failure
        \<lparr>g_createClient = None, g_random = (\<lambda>j. 0),
         g_insert_batch = (\<lambda>b. Inr \<lparr>data = None, error = None\<rparr>),
         g_insert_metrics = Inr \<lparr>data = None, error = None\<rparr>\<rparr> = None
   \<and> status (snd (generate_handler ''POST''
        \<lparr>g_createClient = None, g_random = (\<lambda>j. 0),
         g_insert_batch = (\<lambda>b. Inr \<lparr>data = None, error = None\<rparr>),
         g_insert_metrics = Inr \<lparr>data = None, error = None\<rparr>\<rparr>)) = 200
   \<and> predict_handler ''OPTIONS''
        \<lparr>p_createClient = None,
         p_req_json = Inl \<lparr>instanceof_Error = True, message = ''Unexpected end of JSON input''\<rparr>,
         p_select_training = Inr \<lparr>data = Some [], error = None\<rparr>,
         p_select_metrics = Inr \<lparr>data = None, error = None\<rparr>,
         p_insert_prediction = Inr \<lparr>data = None, error = None\<rparr>\<rparr>
       = ([], \<lparr>status = 200, body = NoBody\<rparr>)"
proof -
  let ?e = "\<lparr>instanceof_Error = True, message = ''Unexpected end of JSON input''\<rparr>"
  let ?w = "\<lparr>p_createClient = None,
         p_req_json = Inl ?e,
         p_select_training = Inr \<lparr>data = Some [], error = None\<rparr>,
         p_select_metrics = Inr \<lparr>data = None, error = None\<rparr>,
         p_insert_prediction = Inr \<lparr>data = None, error = None\<rparr>\<rparr>"
  let ?g = "\<lparr>g_createClient = None, g_random = (\<lambda>j. 0),
         g_insert_batch = (\<lambda>b. if b = 1
            then Inr \<lparr>data = None, error = Some ?e\<rparr>
            else Inr \<lparr>data = None, error = None\<rparr>),
         g_insert_metrics = Inr \<lparr>data = None, error = None\<rparr>\<rparr>"
  let ?w_ok = "\<lparr>p_createClient = None,
         p_req_json = Inr \<lparr>j_temperature = Num 25, j_rainfall = Num 1000, j_fertilizer = Num 100,
                           j_soil_ph = Num 6.5, j_humidity = Num 60\<rparr>,
         p_select_training = Inr \<lparr>data = Some [], error = None\<rparr>,
         p_select_metrics = Inr \<lparr>data = None, error = None\<rparr>,
         p_insert_prediction = Inr \<lparr>data = None, error = None\<rparr>\<rparr>"
  let ?g_ok = "\<lparr>g_createClient = None, g_random = (\<lambda>j. 0),
         g_insert_batch = (\<lambda>b. Inr \<lparr>data = None, error = None\<rparr>),
         g_insert_metrics = Inr \<lparr>data = None, error = None\<rparr>\<rparr>"
  have m: "''POST'' \<noteq> ''OPTIONS''" by simp
  have pf: "predict_raised ?w = Some ?e"
    by (simp add: predict_raised_def rejected_def reported_def)
  have gf: "generate_raised ?g = Some ?e"
    by (simp add: generate_raised_def batch_count rejected_def reported_def upt_conv_Cons)
  have pn: "predict_failure ?w_ok = None"
    by (simp add: predict_failure_def rejected_def reported_def)
  have gn: "generate_failure ?g_ok = None"
    by (simp add: generate_failure_def batch_count reported_def upt_conv_Cons)
  from handlers_catch_failures [of "''POST''" ?w ?e ?g] m pf gf
  have "snd (predict_handler ''POST'' ?w)
      = \<lparr>status = 500, body = ErrorJson ''Unexpected end of JSON input''\<rparr>"
    and "snd (generate_handler ''POST'' ?g)
      = \<lparr>status = 500, body = ErrorJson ''Unexpected end of JSON input''\<rparr>"
    by simp_all
  moreover from handlers_catch_failures [of "''POST''" ?w_ok ?e ?g_ok] m pn gn
  have "status (snd (predict_handler ''POST'' ?w_ok)) = 200"
    and "status (snd (generate_handler ''POST'' ?g_ok)) = 200"
    by blast+
  moreover from handlers_catch_failures [of "''OPTIONS''" ?w ?e ?g]
  have "predict_handler ''OPTIONS'' ?w = ([], \<lparr>status = 200, body = NoBody\<rparr>)"
    by blast
  ultimately show ?thesis using m pf gf pn gn by simp
qed

end
